theory Spec2Isabelle
  imports Main "HOL-Library.AList"
begin

section \<open>Python values and syntax trees\<close>

text \<open>
  The expander works on Python's \<^verbatim>\<open>ast\<close> nodes, which are dynamically typed objects:
  a class name, the optional location attributes \<^verbatim>\<open>lineno\<close> and \<^verbatim>\<open>col_offset\<close>, and
  the fields listed in \<^verbatim>\<open>_fields\<close>, each holding a node, a list, a string, a number or
  \<^verbatim>\<open>None\<close>. A visitor may put a list or \<^verbatim>\<open>None\<close> where a node stood, so one type of
  values covers nodes and everything a field or a macro result can be.

  \<open>NoAttrs\<close> is the location of a node whose class declares no location attributes
  (\<^verbatim>\<open>Module\<close>, \<^verbatim>\<open>Load\<close>, \<^verbatim>\<open>withitem\<close>, \<^verbatim>\<open>alias\<close>, the \<^verbatim>\<open>Done\<close> marker);
  \<open>Attrs l c\<close> is the location of a statement or expression node, \<open>l\<close> and \<open>c\<close> being
  \<open>None\<close> while the attribute is not set.
\<close>

datatype loc = NoAttrs | Attrs "int option" "int option"

datatype py =
    NoneV
  | StrV string
  | IntV int
  | AST string loc "(string \<times> py) list"
  | ListV "py list"

datatype error =
    TypeError string
  | ImportError string
  | SyntaxError string
  | AttributeError string
  | IndexError
  | KeyError string
  | ValueError string
  | OSError string

text \<open>\<^verbatim>\<open>isinstance(v, cls)\<close> for a node class, \<^verbatim>\<open>getattr\<close>, \<^verbatim>\<open>setattr\<close> and \<^verbatim>\<open>delattr\<close> on fields.\<close>

fun isinstance :: "py \<Rightarrow> string \<Rightarrow> bool" where
  "isinstance (AST cls l fs) c = (cls = c)"
| "isinstance _ c = False"

fun isAST :: "py \<Rightarrow> bool" where
  "isAST (AST cls l fs) = True"
| "isAST _ = False"

fun getattr :: "py \<Rightarrow> string \<Rightarrow> error + py" where
  "getattr (AST cls l fs) a =
     (case map_of fs a of Some v \<Rightarrow> Inr v | None \<Rightarrow> Inl (AttributeError a))"
| "getattr _ a = Inl (AttributeError a)"

fun setattr :: "py \<Rightarrow> string \<Rightarrow> py \<Rightarrow> py" where
  "setattr (AST cls l fs) a v = AST cls l (AList.update a v fs)"
| "setattr obj a v = obj"

fun delattr :: "py \<Rightarrow> string \<Rightarrow> py" where
  "delattr (AST cls l fs) a = AST cls l (AList.delete a fs)"
| "delattr obj a = obj"

text \<open>
  \<^verbatim>\<open>ast.copy_location(new_node, old_node)\<close> of the standard library (Python 3.6 and 3.7,
  the versions the repository names): each of \<^verbatim>\<open>lineno\<close> and \<^verbatim>\<open>col_offset\<close> that both
  classes declare and the old node has is stored into the new node, whether or not the
  new node had one.
\<close>

fun copy_location :: "py \<Rightarrow> py \<Rightarrow> py" where
  "copy_location (AST cls (Attrs l c) fs) (AST cls' (Attrs l' c') fs') =
     AST cls (Attrs (case l' of Some x \<Rightarrow> Some x | None \<Rightarrow> l)
                    (case c' of Some x \<Rightarrow> Some x | None \<Rightarrow> c)) fs"
| "copy_location new_node old_node = new_node"

section \<open>The dialect expander (mcpy/dialects.py)\<close>

text \<open>
  A name bound by a dialect-import is some object of the dialect module. What the expander
  does with it: the test \<^verbatim>\<open>isinstance(cls, Dialect)\<close>, \<^verbatim>\<open>repr(cls)\<close> for the error
  message, and the call \<^verbatim>\<open>cls()\<close>, which raises or returns the object whose two
  whole-module transformers are then called. (\<^verbatim>\<open>isinstance(cls, Dialect)\<close> holds of an
  instance of \<^verbatim>\<open>Dialect\<close>, not of the class or a subclass, and calling an instance raises
  \<^verbatim>\<open>TypeError\<close> unless its class defines \<^verbatim>\<open>__call__\<close>.)
\<close>

record dialect =
  Dialect_transform_source :: "string \<Rightarrow> error + string"
  Dialect_transform_ast :: "py \<Rightarrow> error + py"

record bound_object =
  isinstance_Dialect :: bool
  repr :: string
  call :: "error + dialect"

text \<open>
  A match object of the regular expression \<^verbatim>\<open>_dialectimport\<close>: the matched text and its
  groups. \<^verbatim>\<open>list(match)\<close> raises \<^verbatim>\<open>TypeError\<close>, a match object not being iterable.
\<close>

datatype match = Match string "string list"

definition list_of_match :: "match \<Rightarrow> error + string list" where
  "list_of_match m = Inl (TypeError ([CHR 0x27] @ ''re.Match'' @ [CHR 0x27] @ '' object is not iterable''))"

text \<open>
  What the expander takes from the Python runtime and from modules that are not part of
  the expander: the matches of \<^verbatim>\<open>_dialectimport\<close> in a text (\<^verbatim>\<open>finditer\<close>, in order),
  \<^verbatim>\<open>ast.parse\<close>, the decoding of the source bytes, and \<^verbatim>\<open>get_macros\<close>, which resolves and
  imports the module of an import statement and returns its absolute name with the
  bindings, in the order of the dictionary.
\<close>

record runtime =
  finditer :: "string \<Rightarrow> match list"
  parse :: "string \<Rightarrow> error + py"
  decode :: "string \<Rightarrow> error + string"
  get_macros :: "py \<Rightarrow> error + (string \<times> (string \<times> bound_object) list)"

text \<open>
  The state of a \<^verbatim>\<open>DialectExpander\<close>: the file name and the statements seen so far. The
  Python set \<^verbatim>\<open>_seen\<close> is kept as the list of its elements in the order they were added;
  membership is all the code asks of it. Every function of the expander also returns the
  record of the transformer calls made so far (stage, module, dialect name), in order,
  also when it raises: the record is not in the Python and is only there to state what
  was applied.
\<close>

datatype stage = SourceStage | AstStage

type_synonym applied = "(stage \<times> string \<times> string) list"

text \<open>
  The loop \<^verbatim>\<open>while True: match = next(matches); statement, *groups = list(match); ...\<close> of
  \<^verbatim>\<open>find_dialectimport_source\<close>; \<open>Inr None\<close> is \<^verbatim>\<open>StopIteration\<close>.
\<close>

fun next_unseen :: "string list \<Rightarrow> match list \<Rightarrow> error + (string \<times> string list) option" where
  "next_unseen seen [] = Inr None"
| "next_unseen seen (m # matches) =
     (case list_of_match m of
        Inl e \<Rightarrow> Inl e
      | Inr [] \<Rightarrow> Inl (ValueError ''not enough values to unpack (expected at least 1, got 0)'')
      | Inr (statement # groups) \<Rightarrow>
          if statement \<notin> set seen then Inr (Some (statement, seen @ [statement]))
          else next_unseen seen matches)"

definition find_dialectimport_source ::
  "runtime \<Rightarrow> string list \<Rightarrow> string
     \<Rightarrow> error + (string \<times> (string \<times> bound_object) list \<times> string list)" where
  "find_dialectimport_source rt seen text =
     (case next_unseen seen (finditer rt text) of
        Inl e \<Rightarrow> Inl e
      | Inr None \<Rightarrow> Inr ([], [], seen)
      | Inr (Some (statement, seen')) \<Rightarrow>
          (case parse rt statement of
             Inl e \<Rightarrow> Inl e
           | Inr dialectimport \<Rightarrow>
               (case get_macros rt dialectimport of
                  Inl e \<Rightarrow> Inl e
                | Inr (module_absname, bindings) \<Rightarrow> Inr (module_absname, bindings, seen'))))"

definition not_a_Dialect :: "string \<Rightarrow> string \<Rightarrow> string \<Rightarrow> bound_object \<Rightarrow> error" where
  "not_a_Dialect filename module_absname dialectname cls =
     TypeError (filename @ '': '' @ module_absname @ ''.'' @ dialectname
                @ '' is not a '' @ [CHR 0x60] @ ''Dialect'' @ [CHR 0x60] @ '', got '' @ repr cls)"

text \<open>The \<^verbatim>\<open>for dialectname, cls in bindings.items()\<close> loop of \<^verbatim>\<open>transform_source\<close>.\<close>

fun source_bindings_loop ::
  "string \<Rightarrow> string \<Rightarrow> (string \<times> bound_object) list \<Rightarrow> string \<Rightarrow> applied
     \<Rightarrow> (error + string) \<times> applied" where
  "source_bindings_loop filename module_absname [] text log = (Inr text, log)"
| "source_bindings_loop filename module_absname ((dialectname, cls) # bindings) text log =
     (if \<not> isinstance_Dialect cls
      then (Inl (not_a_Dialect filename module_absname dialectname cls), log)
      else case call cls of
             Inl e \<Rightarrow> (Inl e, log)
           | Inr dialect \<Rightarrow>
               (case Dialect_transform_source dialect text of
                  Inl e \<Rightarrow> (Inl e, log @ [(SourceStage, module_absname, dialectname)])
                | Inr text' \<Rightarrow>
                    source_bindings_loop filename module_absname bindings text'
                      (log @ [(SourceStage, module_absname, dialectname)])))"

text \<open>
  \<^verbatim>\<open>transform_source\<close>: the \<^verbatim>\<open>while True\<close> loop. Nothing in the loop bounds the number of
  rounds, so it runs on fuel, and \<open>None\<close> is a run that has not returned within it.
\<close>

fun transform_source ::
  "nat \<Rightarrow> runtime \<Rightarrow> string \<Rightarrow> string list \<Rightarrow> string \<Rightarrow> applied
     \<Rightarrow> ((error + (string \<times> string list)) \<times> applied) option" where
  "transform_source 0 rt filename seen text log = None"
| "transform_source (Suc n) rt filename seen text log =
     (case find_dialectimport_source rt seen text of
        Inl e \<Rightarrow> Some (Inl e, log)
      | Inr (module_absname, bindings, seen') \<Rightarrow>
          if module_absname = [] then Some (Inr (text, seen'), log)
          else (case bindings of
                  [] \<Rightarrow> transform_source n rt filename seen' text log
                | _ \<Rightarrow>
                    (case source_bindings_loop filename module_absname bindings text log of
                       (Inl e, log') \<Rightarrow> Some (Inl e, log')
                     | (Inr text', log') \<Rightarrow> transform_source n rt filename seen' text' log')))"

text \<open>
  \<^verbatim>\<open>ismacroimport(statement, magicname)\<close> is imported from a module that is not among the
  sources; \<^verbatim>\<open>_is_macro_import\<close> of mcpy/expander.py is the same test with the magic name
  fixed to \<^verbatim>\<open>macros\<close>, and is followed here.
\<close>

definition ismacroimport :: "py \<Rightarrow> string \<Rightarrow> error + bool" where
  "ismacroimport statement magicname =
     (if isinstance statement ''ImportFrom'' then
        (case getattr statement ''names'' of
           Inl e \<Rightarrow> Inl e
         | Inr (ListV (firstimport # _)) \<Rightarrow>
             (case getattr firstimport ''name'' of
                Inl e \<Rightarrow> Inl e
              | Inr name \<Rightarrow>
                  if name = StrV magicname then
                    (case getattr firstimport ''asname'' of
                       Inl e \<Rightarrow> Inl e
                     | Inr asname \<Rightarrow> Inr (asname = NoneV))
                  else Inr False)
         | Inr (ListV []) \<Rightarrow> Inl IndexError
         | Inr _ \<Rightarrow> Inl (TypeError ''names''))
      else Inr False)"

text \<open>The \<^verbatim>\<open>for index, statement in enumerate(tree.body)\<close> search of \<^verbatim>\<open>find_dialectimport_ast\<close>.\<close>

fun find_index :: "py list \<Rightarrow> nat \<Rightarrow> error + (nat \<times> py) option" where
  "find_index [] index = Inr None"
| "find_index (statement # body) index =
     (case ismacroimport statement ''dialects'' of
        Inl e \<Rightarrow> Inl e
      | Inr True \<Rightarrow> Inr (Some (index, statement))
      | Inr False \<Rightarrow> find_index body (Suc index))"

definition Import :: "string \<Rightarrow> py" where
  "Import module_absname =
     AST ''Import'' (Attrs None None)
       [(''names'', ListV [AST ''alias'' NoAttrs [(''name'', StrV module_absname), (''asname'', NoneV)]])]"

definition find_dialectimport_ast ::
  "runtime \<Rightarrow> py \<Rightarrow> error + (string \<times> (string \<times> bound_object) list \<times> py)" where
  "find_dialectimport_ast rt tree =
     (case getattr tree ''body'' of
        Inl e \<Rightarrow> Inl e
      | Inr (ListV body) \<Rightarrow>
          (case find_index body 0 of
             Inl e \<Rightarrow> Inl e
           | Inr None \<Rightarrow> Inr ([], [], tree)
           | Inr (Some (index, statement)) \<Rightarrow>
               (case get_macros rt statement of
                  Inl e \<Rightarrow> Inl e
                | Inr (module_absname, bindings) \<Rightarrow>
                    Inr (module_absname, bindings,
                         setattr tree ''body''
                           (ListV (body[index := copy_location (Import module_absname) statement])))))
      | Inr _ \<Rightarrow> Inl (TypeError ''body''))"

text \<open>The \<^verbatim>\<open>for dialectname, cls in bindings.items()\<close> loop of \<^verbatim>\<open>transform_ast\<close>.\<close>

fun ast_bindings_loop ::
  "string \<Rightarrow> string \<Rightarrow> (string \<times> bound_object) list \<Rightarrow> py \<Rightarrow> applied
     \<Rightarrow> (error + py) \<times> applied" where
  "ast_bindings_loop filename module_absname [] tree log = (Inr tree, log)"
| "ast_bindings_loop filename module_absname ((dialectname, cls) # bindings) tree log =
     (if \<not> isinstance_Dialect cls
      then (Inl (not_a_Dialect filename module_absname dialectname cls), log)
      else case call cls of
             Inl e \<Rightarrow> (Inl e, log)
           | Inr dialect \<Rightarrow>
               (case Dialect_transform_ast dialect tree of
                  Inl e \<Rightarrow> (Inl e, log @ [(AstStage, module_absname, dialectname)])
                | Inr tree' \<Rightarrow>
                    ast_bindings_loop filename module_absname bindings tree'
                      (log @ [(AstStage, module_absname, dialectname)])))"

fun transform_ast ::
  "nat \<Rightarrow> runtime \<Rightarrow> string \<Rightarrow> py \<Rightarrow> applied \<Rightarrow> ((error + py) \<times> applied) option" where
  "transform_ast 0 rt filename tree log = None"
| "transform_ast (Suc n) rt filename tree log =
     (case find_dialectimport_ast rt tree of
        Inl e \<Rightarrow> Some (Inl e, log)
      | Inr (module_absname, bindings, tree') \<Rightarrow>
          if module_absname = [] then Some (Inr tree', log)
          else (case bindings of
                  [] \<Rightarrow> transform_ast n rt filename tree' log
                | _ \<Rightarrow>
                    (case ast_bindings_loop filename module_absname bindings tree' log of
                       (Inl e, log') \<Rightarrow> Some (Inl e, log')
                     | (Inr tree'', log') \<Rightarrow> transform_ast n rt filename tree'' log')))"

text \<open>
  \<^verbatim>\<open>DialectExpander.expand\<close>, the top-level entry point, on a fresh expander
  (\<^verbatim>\<open>_seen\<close> empty, as \<^verbatim>\<open>expand_dialects\<close> creates it). The source passes \<^verbatim>\<open>data\<close>, the
  bytes it was given, to \<^verbatim>\<open>ast.parse\<close>.
\<close>

definition DialectExpander_expand ::
  "nat \<Rightarrow> runtime \<Rightarrow> string \<Rightarrow> string \<Rightarrow> ((error + py) \<times> applied) option" where
  "DialectExpander_expand fuel rt filename data =
     (case decode rt data of
        Inl e \<Rightarrow> Some (Inl e, [])
      | Inr text \<Rightarrow>
          (case transform_source fuel rt filename [] text [] of
             None \<Rightarrow> None
           | Some (Inl e, log) \<Rightarrow> Some (Inl e, log)
           | Some (Inr (text', seen'), log) \<Rightarrow>
               (case parse rt data of
                  Inl e \<Rightarrow> Some (Inl e, log)
                | Inr tree \<Rightarrow> transform_ast fuel rt filename tree log)))"

definition expand_dialects ::
  "nat \<Rightarrow> runtime \<Rightarrow> string \<Rightarrow> string \<Rightarrow> ((error + py) \<times> applied) option" where
  "expand_dialects fuel rt data filename = DialectExpander_expand fuel rt filename data"

fun is_ImportError :: "error \<Rightarrow> bool" where
  "is_ImportError (ImportError msg) = True"
| "is_ImportError _ = False"

subsection \<open>A small runtime for the examples\<close>

text \<open>
  A dialect module \<^verbatim>\<open>a\<close>; what its names are bound to is a parameter of the example. The
  texts of the examples are the one-line module \<^verbatim>\<open>from a import dialects, A\<close>, in which
  the pattern \<^verbatim>\<open>_dialectimport\<close> has one match, the whole line, and the one-line module
  \<^verbatim>\<open>from a import (dialects, A)\<close>, in which it has none (the pattern asks for
  \<^verbatim>\<open>import dialects,\<close>); both parse to a module with the one statement
  \<open>example_importfrom\<close>. Anything else the example parser turns into a module whose single
  statement is the text it was given, as a string constant.
\<close>

definition import_A :: string where "import_A = ''from a import dialects, A''"

definition import_A_parenthesized :: string where
  "import_A_parenthesized = ''from a import (dialects, A)''"

definition example_importfrom :: py where
  "example_importfrom =
     AST ''ImportFrom'' (Attrs (Some 1) (Some 0))
       [(''module'', StrV ''a''),
        (''names'', ListV [AST ''alias'' NoAttrs [(''name'', StrV ''dialects''), (''asname'', NoneV)],
                           AST ''alias'' NoAttrs [(''name'', StrV ''A''), (''asname'', NoneV)]]),
        (''level'', IntV 0)]"

definition Module :: "py list \<Rightarrow> py" where
  "Module body = AST ''Module'' NoAttrs [(''body'', ListV body)]"

definition example_parse :: "string \<Rightarrow> error + py" where
  "example_parse t =
     (if t = import_A \<or> t = import_A_parenthesized then Inr (Module [example_importfrom])
      else Inr (Module [AST ''Expr'' (Attrs (Some 1) (Some 0))
                          [(''value'', AST ''Constant'' (Attrs (Some 1) (Some 0)) [(''value'', StrV t)])]]))"

definition example_get_macros ::
  "(string \<times> bound_object) list \<Rightarrow> py \<Rightarrow> error + (string \<times> (string \<times> bound_object) list)" where
  "example_get_macros bindings_a tree =
     (if tree = Module [example_importfrom] \<or> tree = example_importfrom then Inr (''a'', bindings_a)
      else Inl (ImportError ''?''))"

definition example_runtime :: "(string \<times> bound_object) list \<Rightarrow> runtime" where
  "example_runtime bindings_a =
     \<lparr>finditer = (\<lambda>t. if t = import_A then [Match import_A [''a'', ''A'']] else []),
      parse = example_parse,
      decode = (\<lambda>data. Inr data),
      get_macros = example_get_macros bindings_a\<rparr>"

text \<open>
  Three objects a name of module \<^verbatim>\<open>a\<close> may be bound to. \<open>dialect_A\<close> is an instance of a
  subclass of \<^verbatim>\<open>Dialect\<close> whose \<^verbatim>\<open>__call__\<close> returns the instance; its source transformer
  appends a line \<^verbatim>\<open>x\<close> to the text and its AST transformer appends a \<^verbatim>\<open>pass\<close>
  statement to the module. \<open>plain_instance\<close> is an instance of \<^verbatim>\<open>Dialect\<close> itself, which
  cannot be called. \<open>not_dialect\<close> is a class that has the two methods and is not derived
  from \<^verbatim>\<open>Dialect\<close>.
\<close>

definition append_pass :: "py \<Rightarrow> error + py" where
  "append_pass tree =
     (case getattr tree ''body'' of
        Inr (ListV body) \<Rightarrow>
          Inr (setattr tree ''body'' (ListV (body @ [AST ''Pass'' (Attrs (Some 2) (Some 0)) []])))
      | _ \<Rightarrow> Inl (AttributeError ''body''))"

definition instance_A :: dialect where
  "instance_A = \<lparr>Dialect_transform_source = (\<lambda>t. Inr (t @ [CHR 0x0A] @ ''x'')),
                  Dialect_transform_ast = append_pass\<rparr>"

definition dialect_A :: bound_object where
  "dialect_A = \<lparr>isinstance_Dialect = True, repr = ''<A object>'', call = Inr instance_A\<rparr>"

definition plain_instance :: bound_object where
  "plain_instance =
     \<lparr>isinstance_Dialect = True, repr = ''<Dialect object>'',
      call = Inl (TypeError ([CHR 0x27] @ ''Dialect'' @ [CHR 0x27] @ '' object is not callable''))\<rparr>"

definition not_dialect :: bound_object where
  "not_dialect =
     \<lparr>isinstance_Dialect = False, repr = ''<class C>'',
      call = Inr \<lparr>Dialect_transform_source = (\<lambda>t. Inr ''changed''),
                  Dialect_transform_ast = (\<lambda>tree. Inr NoneV)\<rparr>\<rparr>"


subsection \<open>The source stage\<close>

lemma next_unseen_cases:
  "next_unseen seen ms =
     (case ms of [] \<Rightarrow> Inr None
      | m # ms' \<Rightarrow> Inl (TypeError ([CHR 0x27] @ ''re.Match'' @ [CHR 0x27] @ '' object is not iterable'')))"
  by (cases ms) (simp_all add: list_of_match_def)

lemma find_dialectimport_source_cases:
  "find_dialectimport_source rt seen src =
     (case finditer rt src of [] \<Rightarrow> Inr ([], [], seen)
      | m # ms \<Rightarrow> Inl (TypeError ([CHR 0x27] @ ''re.Match'' @ [CHR 0x27] @ '' object is not iterable'')))"
  by (simp add: find_dialectimport_source_def next_unseen_cases split: list.splits)

lemma transform_source_cases:
  "transform_source (Suc n) rt filename seen src log =
     (case finditer rt src of
        [] \<Rightarrow> Some (Inr (src, seen), log)
      | m # ms \<Rightarrow>
          Some (Inl (TypeError ([CHR 0x27] @ ''re.Match'' @ [CHR 0x27] @ '' object is not iterable'')), log))"
  by (simp add: find_dialectimport_source_cases split: list.splits)

text \<open>
  C6. Whatever the dialects are, one run of the source stage either finds no match of the
  dialect-import pattern in the text and returns the text as it is, or raises \<^verbatim>\<open>TypeError\<close>
  at the first match, in \<^verbatim>\<open>statement, *groups = list(match)\<close>; in both cases no source
  transformer has been called. On the module \<^verbatim>\<open>from a import dialects, A\<close>, with \<^verbatim>\<open>A\<close> a
  dialect that can be instantiated, the stage raises and the transformer of \<^verbatim>\<open>A\<close> has
  been applied zero times, not once.
\<close>

theorem transform_source_raises_at_first_match:
  "transform_source (Suc n) rt filename seen src log =
     (case finditer rt src of
        [] \<Rightarrow> Some (Inr (src, seen), log)
      | m # ms \<Rightarrow>
          Some (Inl (TypeError ([CHR 0x27] @ ''re.Match'' @ [CHR 0x27] @ '' object is not iterable'')), log))
   \<and> finditer (example_runtime [(''A'', dialect_A)]) import_A = [Match import_A [''a'', ''A'']]
   \<and> transform_source (Suc n) (example_runtime [(''A'', dialect_A)]) ''m.py'' [] import_A [] =
       Some (Inl (TypeError ([CHR 0x27] @ ''re.Match'' @ [CHR 0x27] @ '' object is not iterable'')), [])"
proof -
  have f: "finditer (example_runtime [(''A'', dialect_A)]) import_A = [Match import_A [''a'', ''A'']]"
    by (simp add: example_runtime_def)
  have c: "transform_source (Suc n) (example_runtime [(''A'', dialect_A)]) ''m.py'' [] import_A [] =
       Some (Inl (TypeError ([CHR 0x27] @ ''re.Match'' @ [CHR 0x27] @ '' object is not iterable'')), [])"
    by (subst transform_source_cases) (simp add: f)
  show ?thesis by (intro conjI transform_source_cases f c)
qed

subsection \<open>The entry point\<close>

lemma DialectExpander_expand_cases:
  "DialectExpander_expand (Suc n) rt filename data =
     (case decode rt data of
        Inl e \<Rightarrow> Some (Inl e, [])
      | Inr src \<Rightarrow>
          (case finditer rt src of
             [] \<Rightarrow> (case parse rt data of
                      Inl e \<Rightarrow> Some (Inl e, [])
                    | Inr tree \<Rightarrow> transform_ast (Suc n) rt filename tree [])
           | m # ms \<Rightarrow>
               Some (Inl (TypeError ([CHR 0x27] @ ''re.Match'' @ [CHR 0x27] @ '' object is not iterable'')), [])))"
  unfolding DialectExpander_expand_def transform_source_cases
  by (simp split: sum.splits list.splits)

text \<open>
  C2. The entry point on the bytes of the module \<^verbatim>\<open>from a import dialects, A\<close>, with \<^verbatim>\<open>A\<close>
  a dialect that can be instantiated: it raises the \<^verbatim>\<open>TypeError\<close> of the source stage.
  No source transformer has been applied, nothing has been parsed and no AST transformer
  has run. In general the entry point gets as far as parsing only when the pattern has no
  match in the decoded text, and then it parses the bytes it was given.
\<close>

theorem DialectExpander_expand_raises_on_dialect_import:
  "DialectExpander_expand (Suc n) (example_runtime [(''A'', dialect_A)]) ''m.py'' import_A =
     Some (Inl (TypeError ([CHR 0x27] @ ''re.Match'' @ [CHR 0x27] @ '' object is not iterable'')), [])
   \<and> DialectExpander_expand (Suc n) rt filename data =
     (case decode rt data of
        Inl e \<Rightarrow> Some (Inl e, [])
      | Inr src \<Rightarrow>
          (case finditer rt src of
             [] \<Rightarrow> (case parse rt data of
                      Inl e \<Rightarrow> Some (Inl e, [])
                    | Inr tree \<Rightarrow> transform_ast (Suc n) rt filename tree [])
           | m # ms \<Rightarrow>
               Some (Inl (TypeError ([CHR 0x27] @ ''re.Match'' @ [CHR 0x27] @ '' object is not iterable'')), [])))"
proof -
  have c: "DialectExpander_expand (Suc n) (example_runtime [(''A'', dialect_A)]) ''m.py'' import_A =
     Some (Inl (TypeError ([CHR 0x27] @ ''re.Match'' @ [CHR 0x27] @ '' object is not iterable'')), [])"
    by (subst DialectExpander_expand_cases) (simp add: example_runtime_def)
  show ?thesis by (intro conjI c DialectExpander_expand_cases)
qed

subsection \<open>A bound name that is not a dialect\<close>

lemma ast_bindings_loop_log:
  "ast_bindings_loop fn m bs tree log = (Inr tree', log') \<Longrightarrow>
   log' = log @ map (\<lambda>(d, cls). (AstStage, m, d)) bs"
proof (induction bs arbitrary: tree log)
  case Nil
  then show ?case by simp
next
  case (Cons b bs)
  obtain d cls where b: "b = (d, cls)" by (cases b)
  from Cons.prems b obtain dialect tree1 where
    "ast_bindings_loop fn m bs tree1 (log @ [(AstStage, m, d)]) = (Inr tree', log')"
    by (auto split: if_splits sum.splits)
  from Cons.IH[OF this] b show ?case by simp
qed

lemma ast_bindings_loop_append:
  "ast_bindings_loop fn m pre tree log = (Inr tree1, log1) \<Longrightarrow>
   ast_bindings_loop fn m (pre @ post) tree log = ast_bindings_loop fn m post tree1 log1"
proof (induction pre arbitrary: tree log)
  case Nil
  then show ?case by simp
next
  case (Cons b pre)
  obtain d cls where b: "b = (d, cls)" by (cases b)
  from Cons.prems b obtain dialect tree2 where
    i: "isinstance_Dialect cls" and c: "call cls = Inr dialect"
    and t: "Dialect_transform_ast dialect tree = Inr tree2"
    and r: "ast_bindings_loop fn m pre tree2 (log @ [(AstStage, m, d)]) = (Inr tree1, log1)"
    by (auto split: if_splits sum.splits)
  from Cons.IH[OF r] b i c t show ?case by simp
qed

text \<open>
  C8, as the claim states it, fails. The module \<^verbatim>\<open>from a import (dialects, A)\<close> gets
  through the source stage, where the pattern has no match, and is parsed; with \<^verbatim>\<open>A\<close>
  bound to an object that is not a dialect, the AST stage raises a \<^verbatim>\<open>TypeError\<close>, which
  is not an \<^verbatim>\<open>ImportError\<close>.
\<close>

theorem non_dialect_error_is_not_ImportError:
  "DialectExpander_expand (Suc 0) (example_runtime [(''A'', not_dialect)]) ''m.py'' import_A_parenthesized
     = Some (Inl (TypeError (''m.py: a.A is not a '' @ [CHR 0x60] @ ''Dialect'' @ [CHR 0x60]
                             @ '', got <class C>'')), [])
   \<and> \<not> is_ImportError (TypeError (''m.py: a.A is not a '' @ [CHR 0x60] @ ''Dialect'' @ [CHR 0x60]
                             @ '', got <class C>''))"
  by (simp add: DialectExpander_expand_cases find_dialectimport_ast_def ismacroimport_def
      example_runtime_def example_parse_def import_A_def import_A_parenthesized_def
      example_get_macros_def example_importfrom_def Module_def not_dialect_def not_a_Dialect_def)

text \<open>
  C8, amended. When the AST stage meets a dialect-import (with a non-empty module name)
  whose bindings hold a name bound to an object that is not a \<^verbatim>\<open>Dialect\<close>, and the names
  listed before it have been processed without an error, the stage fails with a
  \<^verbatim>\<open>TypeError\<close> whose message holds the file name and the dotted name \<^verbatim>\<open>module.name\<close>.
  The transformer calls made are those of the names before it and no other: the error is
  raised before the offending object is instantiated, and no transform of it, nor of a
  name listed after it, is applied.
\<close>

theorem non_Dialect_binding_raises_TypeError:
  assumes "find_dialectimport_ast rt tree = Inr (module_absname, pre @ (dialectname, cls) # post, tree')"
      and "module_absname \<noteq> []"
      and "ast_bindings_loop filename module_absname pre tree' log = (Inr tree1, log1)"
      and "\<not> isinstance_Dialect cls"
  shows "transform_ast (Suc n) rt filename tree log
         = Some (Inl (TypeError (filename @ '': '' @ module_absname @ ''.'' @ dialectname
                  @ '' is not a '' @ [CHR 0x60] @ ''Dialect'' @ [CHR 0x60] @ '', got '' @ repr cls)),
                 log @ map (\<lambda>(d, c). (AstStage, module_absname, d)) pre)"
proof -
  have l: "log1 = log @ map (\<lambda>(d, c). (AstStage, module_absname, d)) pre"
    by (rule ast_bindings_loop_log[OF assms(3)])
  have "ast_bindings_loop filename module_absname (pre @ (dialectname, cls) # post) tree' log
        = (Inl (not_a_Dialect filename module_absname dialectname cls), log1)"
    using ast_bindings_loop_append[OF assms(3), of "(dialectname, cls) # post"] assms(4) by simp
  moreover obtain b bs where bs: "pre @ (dialectname, cls) # post = b # bs"
    by (cases pre) auto
  have "transform_ast (Suc n) rt filename tree log =
          (case ast_bindings_loop filename module_absname (pre @ (dialectname, cls) # post) tree' log of
             (Inl e, log') \<Rightarrow> Some (Inl e, log')
           | (Inr tree'', log') \<Rightarrow> transform_ast n rt filename tree'' log')"
    using assms(1,2) by (simp add: bs del: ast_bindings_loop.simps)
  ultimately show ?thesis using l by (simp add: not_a_Dialect_def)
qed

theorem non_Dialect_binding_raises_TypeError_witness:
  "find_dialectimport_ast (example_runtime [(''B'', dialect_A), (''A'', not_dialect), (''C'', dialect_A)])
        (Module [example_importfrom])
       = Inr (''a'', [(''B'', dialect_A)] @ (''A'', not_dialect) # [(''C'', dialect_A)],
              Module [copy_location (Import ''a'') example_importfrom])
   \<and> ''a'' \<noteq> []
   \<and> ast_bindings_loop ''m.py'' ''a'' [(''B'', dialect_A)]
        (Module [copy_location (Import ''a'') example_importfrom]) []
       = (Inr (Module [copy_location (Import ''a'') example_importfrom,
                       AST ''Pass'' (Attrs (Some 2) (Some 0)) []]), [(AstStage, ''a'', ''B'')])
   \<and> \<not> isinstance_Dialect not_dialect
   \<and> transform_ast (Suc 0) (example_runtime [(''B'', dialect_A), (''A'', not_dialect), (''C'', dialect_A)])
        ''m.py'' (Module [example_importfrom]) []
       = Some (Inl (TypeError (''m.py'' @ '': '' @ ''a'' @ ''.'' @ ''A''
                  @ '' is not a '' @ [CHR 0x60] @ ''Dialect'' @ [CHR 0x60] @ '', got '' @ repr not_dialect)),
               [] @ map (\<lambda>(d, c). (AstStage, ''a'', d)) [(''B'', dialect_A)])"
proof -
  let ?rt = "example_runtime [(''B'', dialect_A), (''A'', not_dialect), (''C'', dialect_A)]"
  have fa: "find_dialectimport_ast ?rt (Module [example_importfrom])
       = Inr (''a'', [(''B'', dialect_A)] @ (''A'', not_dialect) # [(''C'', dialect_A)],
              Module [copy_location (Import ''a'') example_importfrom])"
    by (simp add: find_dialectimport_ast_def ismacroimport_def example_importfrom_def
        example_runtime_def example_get_macros_def Module_def)
  have h2: "''a'' \<noteq> []" by simp
  have lp: "ast_bindings_loop ''m.py'' ''a'' [(''B'', dialect_A)]
        (Module [copy_location (Import ''a'') example_importfrom]) []
       = (Inr (Module [copy_location (Import ''a'') example_importfrom,
                       AST ''Pass'' (Attrs (Some 2) (Some 0)) []]), [(AstStage, ''a'', ''B'')])"
    by (simp add: dialect_A_def instance_A_def append_pass_def Module_def)
  have h4: "\<not> isinstance_Dialect not_dialect" by (simp add: not_dialect_def)
  from non_Dialect_binding_raises_TypeError[OF fa h2 lp h4, of 0] fa lp h4
  show ?thesis by simp
qed

section \<open>The macro expander (mcpy/visitors.py, mcpy/expander.py)\<close>

text \<open>
  A macro function is called as \<^verbatim>\<open>macro(tree, **kw)\<close> and returns a node, a list of nodes
  or \<^verbatim>\<open>None\<close>. It is modelled as a function of the tree and of the keyword arguments
  that are data (\<^verbatim>\<open>syntax\<close>, and \<^verbatim>\<open>optional_vars\<close> for a block macro); the callbacks the
  expander also hands over (\<^verbatim>\<open>expand_macros\<close>, \<^verbatim>\<open>expand_once\<close>, \<^verbatim>\<open>to_source\<close>) are not
  passed. \<open>has_isnamemacro\<close> is \<^verbatim>\<open>hasattr(function, '_isnamemacro')\<close>.
\<close>

record macro =
  macro_function :: "py \<Rightarrow> (string \<times> py) list \<Rightarrow> py"
  has_isnamemacro :: bool


definition isnamemacro :: "macro \<Rightarrow> bool" where
  "isnamemacro function = has_isnamemacro function"

text \<open>
  The binding table is a Python dictionary, kept as an association list read with
  \<open>map_of\<close>. The second state component of the expander below, \<open>calls\<close>, records every
  macro invocation (macro name, syntax, argument tree) in order; it is not in the Python
  and is only there to state which macros were invoked, on what.
  A result is \<open>None\<close> when the expansion has not returned within the fuel,
  \<open>Some (Inl e)\<close> when it raised, \<open>Some (Inr r)\<close> when it returned.
\<close>

type_synonym bindings = "(string \<times> macro) list"
type_synonym calls = "(string \<times> string \<times> py) list"
type_synonym 'a res = "(error + 'a) option"

text \<open>
  \<^verbatim>\<open>ismacroname\<close> is a method of \<^verbatim>\<open>mcpy.core.BaseMacroExpander\<close>, which is not among the
  sources; it is taken to be \<^verbatim>\<open>_ismacro\<close> of mcpy/visitors.py: \<^verbatim>\<open>name in self.bindings\<close>.
\<close>

definition ismacroname :: "bindings \<Rightarrow> string \<Rightarrow> bool" where
  "ismacroname b name = (name \<in> set (map fst b))"

definition apply_macro :: "macro \<Rightarrow> py \<Rightarrow> (string \<times> py) list \<Rightarrow> py" where
  "apply_macro macro tree kw = macro_function macro tree kw"

text \<open>
  \<^verbatim>\<open>ast.fix_missing_locations\<close> of the standard library: its inner \<^verbatim>\<open>_fix(node, lineno,
  col_offset)\<close> gives a node that lacks an attribute the value of its parent and hands
  its own values down to its child nodes (the nodes that are a field or an item of a list
  field). It starts with line 1, column 0.
\<close>

fun fix_node :: "py \<Rightarrow> int \<Rightarrow> int \<Rightarrow> py"
and fix_fields :: "(string \<times> py) list \<Rightarrow> int \<Rightarrow> int \<Rightarrow> (string \<times> py) list"
and fix_items :: "py list \<Rightarrow> int \<Rightarrow> int \<Rightarrow> py list" where
  "fix_node (AST cls NoAttrs fs) lineno col_offset = AST cls NoAttrs (fix_fields fs lineno col_offset)"
| "fix_node (AST cls (Attrs l c) fs) lineno col_offset =
     (let lineno' = (case l of None \<Rightarrow> lineno | Some x \<Rightarrow> x);
          col_offset' = (case c of None \<Rightarrow> col_offset | Some x \<Rightarrow> x)
      in AST cls (Attrs (Some lineno') (Some col_offset')) (fix_fields fs lineno' col_offset'))"
| "fix_node v lineno col_offset = v"
| "fix_fields [] lineno col_offset = []"
| "fix_fields ((f, v) # fs) lineno col_offset =
     (f, case v of
           AST cls l fs' \<Rightarrow> fix_node v lineno col_offset
         | ListV items \<Rightarrow> ListV (fix_items items lineno col_offset)
         | _ \<Rightarrow> v) # fix_fields fs lineno col_offset"
| "fix_items [] lineno col_offset = []"
| "fix_items (x # xs) lineno col_offset =
     (if isAST x then fix_node x lineno col_offset else x) # fix_items xs lineno col_offset"


text \<open>Sequencing of results: the first failure or non-return ends the computation.\<close>

definition then_res :: "'a res \<Rightarrow> ('a \<Rightarrow> 'b res) \<Rightarrow> 'b res" where
  "then_res m f = (case m of None \<Rightarrow> None | Some (Inl e) \<Rightarrow> Some (Inl e) | Some (Inr x) \<Rightarrow> f x)"

lemma then_res_cong [fundef_cong]:
  "m = m' \<Longrightarrow> (\<And>x. m' = Some (Inr x) \<Longrightarrow> f x = f' x) \<Longrightarrow> then_res m f = then_res m' f'"
  by (auto simp: then_res_def split: option.splits sum.splits)

text \<open>
  \<^verbatim>\<open>Done\<close> is a marker class of \<^verbatim>\<open>mcpy.core\<close>, which is not among the sources: a node with
  the single field \<^verbatim>\<open>body\<close>.
\<close>

definition Done :: "py \<Rightarrow> py" where
  "Done body = AST ''Done'' NoAttrs [(''body'', body)]"

definition Constant :: "py \<Rightarrow> py" where
  "Constant v = AST ''Constant'' (Attrs None None) [(''value'', v)]"

definition Expr :: "py \<Rightarrow> py" where
  "Expr v = AST ''Expr'' (Attrs None None) [(''value'', v)]"

fun hasattr_lineno :: "py \<Rightarrow> bool" where
  "hasattr_lineno (AST cls (Attrs (Some l) c) fs) = True"
| "hasattr_lineno _ = False"

fun hasattr_col_offset :: "py \<Rightarrow> bool" where
  "hasattr_col_offset (AST cls (Attrs l (Some c)) fs) = True"
| "hasattr_col_offset _ = False"

definition fix_missing_locations :: "py \<Rightarrow> error + py" where
  "fix_missing_locations node =
     (if isAST node then Inr (fix_node node 1 0) else Inl (AttributeError ''_attributes''))"

text \<open>\<^verbatim>\<open>_add_coverage_dummy_node(tree, target)\<close>.\<close>

definition add_coverage_dummy_node :: "py \<Rightarrow> py \<Rightarrow> error + py" where
  "add_coverage_dummy_node tree target =
     (if \<not> hasattr_lineno target \<and> \<not> hasattr_col_offset target then Inr tree
      else
        let non = copy_location (Constant NoneV) target;
            dummy = copy_location (Expr non) target
        in case tree of
             NoneV \<Rightarrow> Inr (ListV [Done dummy])
           | AST cls l fs \<Rightarrow> Inr (ListV [Done dummy, tree])
           | ListV nodes \<Rightarrow> Inr (ListV (Done dummy # nodes))
           | _ \<Rightarrow> Inl (AttributeError ''insert''))"

text \<open>
  \<^verbatim>\<open>_visit_expansion(expansion, target)\<close> of mcpy/visitors.py. The three \<^verbatim>\<open>map\<close>s are lazy
  and run item by item when \<^verbatim>\<open>list\<close> consumes them: \<^verbatim>\<open>copy_location\<close>, then
  \<^verbatim>\<open>fix_missing_locations\<close>, then, in recursive mode, \<^verbatim>\<open>self.visit\<close>. The visitor comes in
  as the parameter \<open>self_visit\<close>.
\<close>

fun expansion_loop ::
  "(calls \<Rightarrow> py \<Rightarrow> (py \<times> calls) res) \<Rightarrow> bool \<Rightarrow> py \<Rightarrow> py list \<Rightarrow> calls \<Rightarrow> (py list \<times> calls) res" where
  "expansion_loop self_visit recursive target [] log = Some (Inr ([], log))"
| "expansion_loop self_visit recursive target (n # ns) log =
     then_res (Some (fix_missing_locations (copy_location n target))) (\<lambda>n'.
     then_res (if recursive then self_visit log n' else Some (Inr (n', log))) (\<lambda>(v, log').
     then_res (expansion_loop self_visit recursive target ns log') (\<lambda>(vs, log'').
     Some (Inr (v # vs, log'')))))"

definition visit_expansion ::
  "(calls \<Rightarrow> py \<Rightarrow> (py \<times> calls) res) \<Rightarrow> bool \<Rightarrow> calls \<Rightarrow> py \<Rightarrow> py \<Rightarrow> (py \<times> calls) res" where
  "visit_expansion self_visit recursive log expansion target =
     (case expansion of
        NoneV \<Rightarrow> Some (Inr (NoneV, log))
      | AST cls l fs \<Rightarrow>
          then_res (expansion_loop self_visit recursive target [expansion] log)
            (\<lambda>(vs, log'). Some (Inr (last vs, log')))
      | ListV ns \<Rightarrow>
          then_res (expansion_loop self_visit recursive target ns log)
            (\<lambda>(vs, log'). Some (Inr (ListV vs, log')))
      | StrV s \<Rightarrow>
          then_res (expansion_loop self_visit recursive target (map (\<lambda>c. StrV [c]) s) log)
            (\<lambda>(vs, log'). Some (Inr (ListV vs, log')))
      | IntV i \<Rightarrow> Some (Inl (TypeError ''not iterable'')))"

text \<open>
  Modelled from the spec: \<^verbatim>\<open>expand\<close> is a method of \<^verbatim>\<open>mcpy.core.BaseMacroExpander\<close>, which
  is not among the sources. Spec 4.2, steps 2 to 4: look the macro up in the binding
  table, invoke it with the argument tree and the syntax kind, fill the locations of what
  it returns from the invocation node, and unless in one-layer mode expand the result
  again. This is \<^verbatim>\<open>_expand\<close> of mcpy/visitors.py, which is followed here; that method has no
  \<^verbatim>\<open>fill_root_location\<close> argument and the argument is not used.
\<close>

definition expand ::
  "(calls \<Rightarrow> py \<Rightarrow> (py \<times> calls) res) \<Rightarrow> bool \<Rightarrow> bindings \<Rightarrow> calls
     \<Rightarrow> string \<Rightarrow> py \<Rightarrow> string \<Rightarrow> py \<Rightarrow> bool \<Rightarrow> (string \<times> py) list \<Rightarrow> (py \<times> calls) res" where
  "expand self_visit recursive b log syntax target macroname tree fill_root_location kw =
     (case map_of b macroname of
        None \<Rightarrow> Some (Inl (KeyError macroname))
      | Some macro \<Rightarrow>
          let kw' = AList.update ''syntax'' (StrV syntax) kw;
              expansion = apply_macro macro tree kw'
          in visit_expansion self_visit recursive (log @ [(macroname, syntax, tree)]) expansion target)"

text \<open>The test \<^verbatim>\<open>isinstance(d, Name) and self.ismacroname(d.id)\<close>; the name when it holds.\<close>

definition macro_Name :: "bindings \<Rightarrow> py \<Rightarrow> error + string option" where
  "macro_Name b d =
     (if isinstance d ''Name'' then
        (case getattr d ''id'' of
           Inl e \<Rightarrow> Inl e
         | Inr (StrV name) \<Rightarrow> Inr (if ismacroname b name then Some name else None)
         | Inr _ \<Rightarrow> Inr None)
      else Inr None)"

fun detect_decorator_macros :: "bindings \<Rightarrow> py list \<Rightarrow> error + (py list \<times> py list)" where
  "detect_decorator_macros b [] = Inr ([], [])"
| "detect_decorator_macros b (d # decorator_list) =
     (case macro_Name b d of
        Inl e \<Rightarrow> Inl e
      | Inr r \<Rightarrow>
          (case detect_decorator_macros b decorator_list of
             Inl e \<Rightarrow> Inl e
           | Inr (macros, others) \<Rightarrow>
               (case r of Some name \<Rightarrow> Inr (d # macros, others) | None \<Rightarrow> Inr (macros, d # others))))"

text \<open>
  The loop \<^verbatim>\<open>for macro in reversed(macros)\<close> of \<^verbatim>\<open>_visit_Decorated\<close>; \<open>expand_decorated\<close> is
  the call \<^verbatim>\<open>self.expand('decorator', decorated, macroname, decorated, ...)\<close>, whose tree
  argument is \<^verbatim>\<open>decorated\<close> in every round. The second loop adds the coverage nodes.
\<close>

fun decorator_loop ::
  "(calls \<Rightarrow> string \<Rightarrow> (py \<times> calls) res) \<Rightarrow> py list \<Rightarrow> py \<Rightarrow> py list \<Rightarrow> calls
     \<Rightarrow> (py \<times> py list \<times> calls) res" where
  "decorator_loop expand_decorated [] new_tree macros_executed log =
     Some (Inr (new_tree, macros_executed, log))"
| "decorator_loop expand_decorated (macro # macros) new_tree macros_executed log =
     (case getattr macro ''id'' of
        Inl e \<Rightarrow> Some (Inl e)
      | Inr (StrV macroname) \<Rightarrow>
          then_res (expand_decorated log macroname) (\<lambda>(new_tree', log').
            if new_tree' = NoneV then Some (Inr (new_tree', macros_executed @ [macro], log'))
            else decorator_loop expand_decorated macros new_tree' (macros_executed @ [macro]) log')
      | Inr _ \<Rightarrow> Some (Inl (KeyError ''id'')))"

fun coverage_loop :: "py \<Rightarrow> py list \<Rightarrow> error + py" where
  "coverage_loop new_tree [] = Inr new_tree"
| "coverage_loop new_tree (macro # macros_executed) =
     (case add_coverage_dummy_node new_tree macro of
        Inl e \<Rightarrow> Inl e
      | Inr new_tree' \<Rightarrow> coverage_loop new_tree' macros_executed)"

definition ismodified :: "string \<Rightarrow> py \<Rightarrow> error + bool" where
  "ismodified macroname tree =
     (if isinstance tree ''Name'' then
        (case getattr tree ''id'' of Inl e \<Rightarrow> Inl e | Inr v \<Rightarrow> Inr (v \<noteq> StrV macroname))
      else Inr True)"

text \<open>
  The visitor. \<^verbatim>\<open>BaseMacroExpander.visit\<close> returns the tree as it is when there are no
  bindings and otherwise dispatches on the class of the node as \<^verbatim>\<open>NodeVisitor.visit\<close>
  does; \<^verbatim>\<open>visit_ClassDef\<close> and \<^verbatim>\<open>visit_FunctionDef\<close> both are \<^verbatim>\<open>_visit_Decorated\<close>.
  \<^verbatim>\<open>generic_visit\<close> is \<^verbatim>\<open>NodeTransformer.generic_visit\<close> of the standard library, with its
  loops over the fields and over the items of a list field.

  Modelled from the spec: how the visitor treats a \<^verbatim>\<open>Done\<close> node is decided in
  \<^verbatim>\<open>mcpy.core\<close>, which is not among the sources; by spec 3 and 7 a \<^verbatim>\<open>Done\<close>-wrapped subtree
  is not revisited, so the node is returned as it is.

  Descending into the tree needs no fuel; each renewed visit of what a macro returned
  takes one unit, so that the fuel bounds the depth of nested re-expansion, which the
  source leaves unbounded.
\<close>

lemma size_update_le:
  "map_of fs a = Some v \<Longrightarrow> size v' \<le> size v \<Longrightarrow>
   size_list (size_prod (\<lambda>x. 0) size) (AList.update a v' fs) \<le> size_list (size_prod (\<lambda>x. 0) size) fs"
  by (induction fs) (auto split: if_splits)

lemma size_detect_decorator_macros:
  "detect_decorator_macros b decorator_list = Inr (macros, others) \<Longrightarrow>
   size_list size others \<le> size_list size decorator_list"
  by (induction decorator_list arbitrary: macros others)
     (auto split: sum.splits option.splits prod.splits)

lemma size_setattr_decorator_list:
  assumes "getattr decorated ''decorator_list'' = Inr (ListV decorator_list)"
      and "detect_decorator_macros b decorator_list = Inr (macros, others)"
  shows "size (setattr decorated ''decorator_list'' (ListV others)) \<le> size decorated"
proof (cases decorated)
  case (AST cls l fs)
  with assms(1) have m: "map_of fs ''decorator_list'' = Some (ListV decorator_list)"
    by (simp split: option.splits)
  have "size (ListV others) \<le> size (ListV decorator_list)"
    using size_detect_decorator_macros[OF assms(2)] by simp
  from size_update_le[OF m this] AST show ?thesis by simp
qed (use assms in simp_all)

function visit :: "nat \<Rightarrow> bool \<Rightarrow> bindings \<Rightarrow> calls \<Rightarrow> py \<Rightarrow> (py \<times> calls) res"
and visit_Subscript :: "nat \<Rightarrow> bool \<Rightarrow> bindings \<Rightarrow> calls \<Rightarrow> py \<Rightarrow> (py \<times> calls) res"
and visit_With :: "nat \<Rightarrow> bool \<Rightarrow> bindings \<Rightarrow> calls \<Rightarrow> py \<Rightarrow> (py \<times> calls) res"
and visit_Decorated :: "nat \<Rightarrow> bool \<Rightarrow> bindings \<Rightarrow> calls \<Rightarrow> py \<Rightarrow> (py \<times> calls) res"
and visit_Name :: "nat \<Rightarrow> bool \<Rightarrow> bindings \<Rightarrow> calls \<Rightarrow> py \<Rightarrow> (py \<times> calls) res"
and generic_visit :: "nat \<Rightarrow> bool \<Rightarrow> bindings \<Rightarrow> calls \<Rightarrow> py \<Rightarrow> (py \<times> calls) res"
and generic_fields ::
  "nat \<Rightarrow> bool \<Rightarrow> bindings \<Rightarrow> calls \<Rightarrow> (string \<times> py) list \<Rightarrow> ((string \<times> py) list \<times> calls) res"
and generic_items :: "nat \<Rightarrow> bool \<Rightarrow> bindings \<Rightarrow> calls \<Rightarrow> py list \<Rightarrow> (py list \<times> calls) res"
where
  "visit n recursive b log tree =
     (if b = [] then Some (Inr (tree, log))
      else case tree of
        AST cls l fs \<Rightarrow>
          if cls = ''Subscript'' then visit_Subscript n recursive b log tree
          else if cls = ''With'' then visit_With n recursive b log tree
          else if cls = ''ClassDef'' \<or> cls = ''FunctionDef'' then visit_Decorated n recursive b log tree
          else if cls = ''Name'' then visit_Name n recursive b log tree
          else if cls = ''Done'' then Some (Inr (tree, log))
          else generic_visit n recursive b log tree
      | _ \<Rightarrow> Some (Inl (AttributeError ''_fields'')))"
| "visit_Subscript n recursive b log subscript =
     then_res (Some (getattr subscript ''value'')) (\<lambda>rootdir.
     then_res (Some (macro_Name b rootdir)) (\<lambda>r.
       case r of
         Some macroname \<Rightarrow>
           then_res (Some (getattr subscript ''slice'')) (\<lambda>slice.
           then_res (Some (getattr slice ''value'')) (\<lambda>tree.
             expand (\<lambda>log' t. if n = 0 then None else visit (n - 1) recursive b log' t)
               recursive b log ''expr'' subscript macroname tree True []))
       | None \<Rightarrow> generic_visit n recursive b log subscript))"
| "visit_With n recursive b log withstmt =
     then_res (Some (getattr withstmt ''items'')) (\<lambda>items.
       case items of
         ListV (with_item # _) \<Rightarrow>
           then_res (Some (getattr with_item ''context_expr'')) (\<lambda>rootdir.
           then_res (Some (macro_Name b rootdir)) (\<lambda>r.
             case r of
               Some macroname \<Rightarrow>
                 then_res (Some (getattr withstmt ''body'')) (\<lambda>tree.
                 then_res (Some (getattr with_item ''optional_vars'')) (\<lambda>optional_vars.
                 then_res (expand (\<lambda>log' t. if n = 0 then None else visit (n - 1) recursive b log' t)
                             recursive b log ''block'' withstmt macroname tree False
                             [(''optional_vars'', optional_vars)]) (\<lambda>(new_tree, log').
                 then_res (Some (add_coverage_dummy_node new_tree withstmt)) (\<lambda>new_tree'.
                   Some (Inr (new_tree', log'))))))
             | None \<Rightarrow> generic_visit n recursive b log withstmt))
       | ListV [] \<Rightarrow> Some (Inl IndexError)
       | _ \<Rightarrow> Some (Inl (TypeError ''items'')))"
| "visit_Decorated n recursive b log decorated =
     then_res (Some (getattr decorated ''decorator_list'')) (\<lambda>dl.
       case dl of
         ListV decorator_list \<Rightarrow>
           then_res (Some (detect_decorator_macros b decorator_list)) (\<lambda>(macros, others).
             if macros \<noteq> [] then
               then_res (decorator_loop
                           (\<lambda>log' macroname.
                              expand (\<lambda>log'' t. if n = 0 then None else visit (n - 1) recursive b log'' t)
                                recursive b log' ''decorator''
                                (setattr decorated ''decorator_list'' (ListV others)) macroname
                                (setattr decorated ''decorator_list'' (ListV others)) False [])
                           (rev macros) NoneV [] log) (\<lambda>(new_tree, macros_executed, log').
               then_res (Some (coverage_loop new_tree macros_executed)) (\<lambda>new_tree'.
                 Some (Inr (new_tree', log'))))
             else generic_visit n recursive b log (setattr decorated ''decorator_list'' (ListV others)))
       | _ \<Rightarrow> Some (Inl (TypeError ''decorator_list'')))"
| "visit_Name n recursive b log name =
     then_res (Some (getattr name ''id'')) (\<lambda>ident.
       case ident of
         StrV macroname \<Rightarrow>
           (case map_of b macroname of
              Some macro \<Rightarrow>
                if isnamemacro macro then
                  then_res (expand (\<lambda>log' t. if n = 0 then None else visit (n - 1) False b log' t)
                              False b log ''name'' name macroname name True []) (\<lambda>(new_tree, log').
                    if recursive \<and> new_tree \<noteq> NoneV then
                      then_res (Some (ismodified macroname new_tree)) (\<lambda>modified.
                        if modified then
                          (if n = 0 then None else visit (n - 1) recursive b log' new_tree)
                        else Some (Inr (Done new_tree, log')))
                    else Some (Inr (new_tree, log')))
                else generic_visit n recursive b log name
            | None \<Rightarrow> generic_visit n recursive b log name)
       | _ \<Rightarrow> generic_visit n recursive b log name)"
| "generic_visit n recursive b log node =
     (case node of
        AST cls l fs \<Rightarrow>
          then_res (generic_fields n recursive b log fs) (\<lambda>(fs', log').
            Some (Inr (AST cls l fs', log')))
      | _ \<Rightarrow> Some (Inl (AttributeError ''_fields'')))"
| "generic_fields n recursive b log flds =
     (case flds of
        [] \<Rightarrow> Some (Inr ([], log))
      | (field, old_value) # rest \<Rightarrow>
          (case old_value of
             ListV items \<Rightarrow>
               then_res (generic_items n recursive b log items) (\<lambda>(new_values, log').
               then_res (generic_fields n recursive b log' rest) (\<lambda>(rest', log'').
                 Some (Inr ((field, ListV new_values) # rest', log''))))
           | AST cls l fs \<Rightarrow>
               then_res (visit n recursive b log old_value) (\<lambda>(new_node, log').
               then_res (generic_fields n recursive b log' rest) (\<lambda>(rest', log'').
                 if new_node = NoneV then Some (Inr (rest', log''))
                 else Some (Inr ((field, new_node) # rest', log''))))
           | _ \<Rightarrow>
               then_res (generic_fields n recursive b log rest) (\<lambda>(rest', log').
                 Some (Inr ((field, old_value) # rest', log')))))"
| "generic_items n recursive b log items =
     (case items of
        [] \<Rightarrow> Some (Inr ([], log))
      | value # rest \<Rightarrow>
          (case value of
             AST cls l fs \<Rightarrow>
               then_res (visit n recursive b log value) (\<lambda>(value', log').
               then_res (generic_items n recursive b log' rest) (\<lambda>(new_values, log'').
                 case value' of
                   NoneV \<Rightarrow> Some (Inr (new_values, log''))
                 | AST cls' l' fs' \<Rightarrow> Some (Inr (value' # new_values, log''))
                 | ListV vs \<Rightarrow> Some (Inr (vs @ new_values, log''))
                 | StrV s \<Rightarrow> Some (Inr (map (\<lambda>c. StrV [c]) s @ new_values, log''))
                 | IntV i \<Rightarrow> Some (Inl (TypeError ''not iterable''))))
           | _ \<Rightarrow>
               then_res (generic_items n recursive b log rest) (\<lambda>(new_values, log').
                 Some (Inr (value # new_values, log')))))"
  by pat_completeness auto
termination
  apply (relation "inv_image (less_than <*lex*> less_than <*lex*> less_than)
    (\<lambda>x. case x of
       Inl (Inl (Inl (n, r, b, log, t))) \<Rightarrow> (n, size t, 3::nat)
     | Inl (Inl (Inr (n, r, b, log, t))) \<Rightarrow> (n, size t, 2)
     | Inl (Inr (Inl (n, r, b, log, t))) \<Rightarrow> (n, size t, 2)
     | Inl (Inr (Inr (n, r, b, log, t))) \<Rightarrow> (n, size t, 2)
     | Inr (Inl (Inl (n, r, b, log, t))) \<Rightarrow> (n, size t, 2)
     | Inr (Inl (Inr (n, r, b, log, t))) \<Rightarrow> (n, size t, 1)
     | Inr (Inr (Inl (n, r, b, log, fs))) \<Rightarrow> (n, size_list (size_prod (\<lambda>x. 0) size) fs, 0)
     | Inr (Inr (Inr (n, r, b, log, xs))) \<Rightarrow> (n, size_list size xs, 0))")
  subgoal by auto
  apply simp_all
  subgoal for b decorated x x5 xa xb y
    using size_setattr_decorator_list[of decorated x5 b "[]" y] by auto
  subgoal by auto
  subgoal by auto
  done


declare visit.simps [simp del] visit_Subscript.simps [simp del] visit_With.simps [simp del]
  visit_Decorated.simps [simp del] visit_Name.simps [simp del] generic_visit.simps [simp del]
  generic_fields.simps [simp del] generic_items.simps [simp del]

lemmas visitor_simps = visit.simps visit_Subscript.simps visit_With.simps visit_Decorated.simps
  visit_Name.simps generic_visit.simps generic_fields.simps generic_items.simps

text \<open>\<^verbatim>\<open>visit_once\<close> expands one layer: the visitor with \<^verbatim>\<open>self.recursive\<close> off.\<close>

definition visit_once :: "nat \<Rightarrow> bindings \<Rightarrow> calls \<Rightarrow> py \<Rightarrow> (py \<times> calls) res" where
  "visit_once n b log tree = visit n False b log tree"

text \<open>
  \<^verbatim>\<open>expand_macros(tree, bindings, filename)\<close>: a fresh \<^verbatim>\<open>MacroExpander\<close> (recursive mode on)
  visits the tree, and \<^verbatim>\<open>global_postprocess\<close> is applied to what it returns.
  \<^verbatim>\<open>global_postprocess\<close> is imported from \<^verbatim>\<open>mcpy.core\<close>, which is not among the sources, and
  the spec does not describe it: it is a parameter.
\<close>

definition expand_macros ::
  "(py \<Rightarrow> py) \<Rightarrow> nat \<Rightarrow> py \<Rightarrow> bindings \<Rightarrow> string \<Rightarrow> (py \<times> calls) res" where
  "expand_macros global_postprocess fuel tree b filename =
     then_res (visit fuel True b [] tree) (\<lambda>(expansion, log).
       Some (Inr (global_postprocess expansion, log)))"

subsection \<open>Nodes as the parser builds them, and example macros\<close>

datatype expr_context = Load | Store | Del

fun expr_context_class :: "expr_context \<Rightarrow> string" where
  "expr_context_class Load = ''Load''"
| "expr_context_class Store = ''Store''"
| "expr_context_class Del = ''Del''"

definition Name :: "loc \<Rightarrow> string \<Rightarrow> expr_context \<Rightarrow> py" where
  "Name l ident ctx =
     AST ''Name'' l [(''id'', StrV ident), (''ctx'', AST (expr_context_class ctx) NoAttrs [])]"

definition Pass :: "loc \<Rightarrow> py" where
  "Pass l = AST ''Pass'' l []"

text \<open>
  A function definition \<^verbatim>\<open>def f(): pass\<close> at line 3 under the given decorators, and the
  coverage statement the expander puts in front of the result for an executed decorator
  or block macro at the given position.
\<close>

definition example_def :: "py list \<Rightarrow> py" where
  "example_def decorators =
     AST ''FunctionDef'' (Attrs (Some 3) (Some 0))
       [(''name'', StrV ''f''), (''body'', ListV [Pass (Attrs (Some 4) (Some 4))]),
        (''decorator_list'', ListV decorators)]"

definition coverage_dummy :: "int \<Rightarrow> int \<Rightarrow> py" where
  "coverage_dummy l c =
     Done (AST ''Expr'' (Attrs (Some l) (Some c))
            [(''value'', AST ''Constant'' (Attrs (Some l) (Some c)) [(''value'', NoneV)])])"

text \<open>Macro \<^verbatim>\<open>A\<close> returns the tree it was given; macro \<^verbatim>\<open>B\<close> replaces it by a \<^verbatim>\<open>pass\<close>.\<close>

definition macro_A :: macro where
  "macro_A = \<lparr>macro_function = (\<lambda>tree kw. tree), has_isnamemacro = False\<rparr>"

definition macro_B :: macro where
  "macro_B = \<lparr>macro_function = (\<lambda>tree kw. Pass (Attrs None None)), has_isnamemacro = False\<rparr>"

subsection \<open>Stacked decorator macros\<close>

lemma decorator_loop_stops_at_None:
  assumes "getattr macro ''id'' = Inr (StrV macroname)"
      and "expand_decorated log macroname = Some (Inr (NoneV, log'))"
  shows "decorator_loop expand_decorated (macro # macros) new_tree macros_executed log
         = Some (Inr (NoneV, macros_executed @ [macro], log'))"
  using assms by (simp add: then_res_def)

text \<open>
  C1. The definition \<^verbatim>\<open>f\<close> under \<^verbatim>\<open>@A\<close> (outer) and \<^verbatim>\<open>@B\<close> (inner). \<^verbatim>\<open>B\<close> is invoked first and
  returns a \<^verbatim>\<open>pass\<close> statement; \<^verbatim>\<open>A\<close> is then invoked on the definition itself (with the
  macro decorators removed), not on what \<^verbatim>\<open>B\<close> returned, and the final tree is \<^verbatim>\<open>A\<close>'s
  result for the definition: the result of \<^verbatim>\<open>B\<close> is lost.
\<close>

theorem stacked_decorators_get_the_definition:
  "visit 1 True [(''A'', macro_A), (''B'', macro_B)] []
     (example_def [Name (Attrs (Some 1) (Some 1)) ''A'' Load, Name (Attrs (Some 2) (Some 1)) ''B'' Load])
   = Some (Inr (ListV [coverage_dummy 1 1, coverage_dummy 2 1, example_def []],
               [(''B'', ''decorator'', example_def []), (''A'', ''decorator'', example_def [])]))
   \<and> apply_macro macro_B (example_def []) [(''syntax'', StrV ''decorator'')] = Pass (Attrs None None)
   \<and> Pass (Attrs None None) \<noteq> example_def []"
  by (simp add: visitor_simps example_def_def Name_def macro_Name_def ismacroname_def
     then_res_def expand_def visit_expansion_def apply_macro_def macro_A_def macro_B_def Pass_def
     fix_missing_locations_def coverage_dummy_def
     add_coverage_dummy_node_def Done_def Constant_def Expr_def Let_def)

subsection \<open>Trees without macro invocations\<close>

text \<open>
  Whether one of the four detectors finds an invocation at a node: the tests of
  \<^verbatim>\<open>visit_Subscript\<close>, \<^verbatim>\<open>visit_With\<close>, \<^verbatim>\<open>_visit_Decorated\<close> and \<^verbatim>\<open>visit_Name\<close>, in the
  order the visitor applies them, with the attribute accesses they make. \<open>plain b t\<close>: the
  tests succeed and find nothing at every node of the tree \<open>t\<close> (a node, with the nodes
  that are its fields or items of its list fields).
\<close>

definition invocation_at :: "bindings \<Rightarrow> py \<Rightarrow> error + bool" where
  "invocation_at b node =
     (if isinstance node ''Subscript'' then
        (case getattr node ''value'' of
           Inl e \<Rightarrow> Inl e
         | Inr rootdir \<Rightarrow>
             (case macro_Name b rootdir of Inl e \<Rightarrow> Inl e | Inr r \<Rightarrow> Inr (r \<noteq> None)))
      else if isinstance node ''With'' then
        (case getattr node ''items'' of
           Inl e \<Rightarrow> Inl e
         | Inr (ListV (with_item # _)) \<Rightarrow>
             (case getattr with_item ''context_expr'' of
                Inl e \<Rightarrow> Inl e
              | Inr rootdir \<Rightarrow>
                  (case macro_Name b rootdir of Inl e \<Rightarrow> Inl e | Inr r \<Rightarrow> Inr (r \<noteq> None)))
         | Inr (ListV []) \<Rightarrow> Inl IndexError
         | Inr _ \<Rightarrow> Inl (TypeError ''items''))
      else if isinstance node ''ClassDef'' \<or> isinstance node ''FunctionDef'' then
        (case getattr node ''decorator_list'' of
           Inl e \<Rightarrow> Inl e
         | Inr (ListV decorator_list) \<Rightarrow>
             (case detect_decorator_macros b decorator_list of
                Inl e \<Rightarrow> Inl e
              | Inr (macros, others) \<Rightarrow> Inr (macros \<noteq> []))
         | Inr _ \<Rightarrow> Inl (TypeError ''decorator_list''))
      else if isinstance node ''Name'' then
        (case getattr node ''id'' of
           Inl e \<Rightarrow> Inl e
         | Inr (StrV ident) \<Rightarrow>
             (case map_of b ident of
                Some macro \<Rightarrow> Inr (isnamemacro macro)
              | None \<Rightarrow> Inr False)
         | Inr _ \<Rightarrow> Inr False)
      else Inr False)"

fun plain :: "bindings \<Rightarrow> py \<Rightarrow> bool"
and plain_fields :: "bindings \<Rightarrow> (string \<times> py) list \<Rightarrow> bool"
and plain_items :: "bindings \<Rightarrow> py list \<Rightarrow> bool" where
  "plain b (AST cls l fs) = (invocation_at b (AST cls l fs) = Inr False \<and> plain_fields b fs)"
| "plain b v = False"
| "plain_fields b [] = True"
| "plain_fields b ((f, v) # fs) =
     ((case v of AST cls l fs' \<Rightarrow> plain b v | ListV items \<Rightarrow> plain_items b items | _ \<Rightarrow> True)
      \<and> plain_fields b fs)"
| "plain_items b [] = True"
| "plain_items b (x # xs) = ((if isAST x then plain b x else True) \<and> plain_items b xs)"

lemma detect_no_macros:
  "detect_decorator_macros b decorator_list = Inr ([], others) \<Longrightarrow> others = decorator_list"
  by (induction decorator_list arbitrary: others)
     (auto split: sum.splits option.splits prod.splits)

lemma setattr_same:
  "getattr node a = Inr v \<Longrightarrow> setattr node a v = node"
  by (cases node) (auto simp: update_triv split: option.splits)

lemma invocation_at_Name:
  assumes "invocation_at b (AST ''Name'' l fs) = Inr False"
  shows "visit_Name n r b log (AST ''Name'' l fs) = generic_visit n r b log (AST ''Name'' l fs)"
proof -
  from assms obtain v where g: "getattr (AST ''Name'' l fs) ''id'' = Inr v"
    by (cases "getattr (AST ''Name'' l fs) ''id''") (simp_all add: invocation_at_def)
  show ?thesis
  proof (cases v)
    case (StrV ident)
    show ?thesis
    proof (cases "map_of b ident")
      case None
      with g StrV show ?thesis by (subst visit_Name.simps) (simp add: then_res_def)
    next
      case (Some macro)
      with assms g StrV have "\<not> isnamemacro macro" by (simp add: invocation_at_def)
      with g StrV Some show ?thesis by (subst visit_Name.simps) (simp add: then_res_def)
    qed
  qed (use g in \<open>subst visit_Name.simps, simp add: then_res_def\<close>)+
qed


lemma invocation_at_Subscript:
  assumes "invocation_at b (AST ''Subscript'' l fs) = Inr False"
  shows "visit_Subscript n r b log (AST ''Subscript'' l fs)
         = generic_visit n r b log (AST ''Subscript'' l fs)"
proof -
  from assms obtain rootdir where g: "getattr (AST ''Subscript'' l fs) ''value'' = Inr rootdir"
    by (cases "getattr (AST ''Subscript'' l fs) ''value''") (simp_all add: invocation_at_def)
  from assms g have m: "macro_Name b rootdir = Inr None"
    by (cases "macro_Name b rootdir") (simp_all add: invocation_at_def)
  from g m show ?thesis by (subst visit_Subscript.simps) (simp add: then_res_def)
qed

lemma invocation_at_With:
  assumes "invocation_at b (AST ''With'' l fs) = Inr False"
  shows "visit_With n r b log (AST ''With'' l fs) = generic_visit n r b log (AST ''With'' l fs)"
proof -
  from assms obtain items where g: "getattr (AST ''With'' l fs) ''items'' = Inr items"
    by (cases "getattr (AST ''With'' l fs) ''items''") (simp_all add: invocation_at_def)
  from assms g obtain with_item rest where i: "items = ListV (with_item # rest)"
    by (cases items) (auto simp: invocation_at_def split: list.splits)
  from assms g i obtain rootdir where c: "getattr with_item ''context_expr'' = Inr rootdir"
    by (cases "getattr with_item ''context_expr''") (simp_all add: invocation_at_def)
  from assms g i c have m: "macro_Name b rootdir = Inr None"
    by (cases "macro_Name b rootdir") (simp_all add: invocation_at_def)
  from g i c m show ?thesis by (subst visit_With.simps) (simp add: then_res_def)
qed

lemma invocation_at_Decorated:
  assumes "invocation_at b (AST cls l fs) = Inr False"
      and "cls = ''ClassDef'' \<or> cls = ''FunctionDef''"
  shows "visit_Decorated n r b log (AST cls l fs) = generic_visit n r b log (AST cls l fs)"
proof -
  have c: "\<not> isinstance (AST cls l fs) ''Subscript''" "\<not> isinstance (AST cls l fs) ''With''"
    "isinstance (AST cls l fs) ''ClassDef'' \<or> isinstance (AST cls l fs) ''FunctionDef''"
    using assms(2) by auto
  note inv = assms(1)[unfolded invocation_at_def, simplified c if_False if_True]
  from inv obtain dl where g: "getattr (AST cls l fs) ''decorator_list'' = Inr dl"
    by (cases "getattr (AST cls l fs) ''decorator_list''") simp_all
  from inv g obtain decorator_list where dl: "dl = ListV decorator_list"
    by (cases dl) simp_all
  from inv g dl obtain others where d: "detect_decorator_macros b decorator_list = Inr ([], others)"
    by (cases "detect_decorator_macros b decorator_list") auto
  have o: "others = decorator_list" by (rule detect_no_macros[OF d])
  have s: "setattr (AST cls l fs) ''decorator_list'' (ListV decorator_list) = AST cls l fs"
    by (rule setattr_same[OF g[unfolded dl]])
  from g dl d[unfolded o] s show ?thesis
    by (subst visit_Decorated.simps) (simp add: then_res_def)
qed

lemma visit_plain_node:
  assumes inv: "invocation_at b (AST cls l fs) = Inr False"
  shows "visit n r b log (AST cls l fs) =
           (if b = [] \<or> cls = ''Done'' then Some (Inr (AST cls l fs, log))
            else generic_visit n r b log (AST cls l fs))"
proof (cases "b = []")
  case True
  then show ?thesis by (subst visit.simps) simp
next
  case False
  note nb = False
  show ?thesis
  proof (cases "cls = ''Subscript''")
    case True
    with nb invocation_at_Subscript[of b l fs n r log] inv show ?thesis
      by (subst visit.simps) simp
  next
    case ns: False
    show ?thesis
    proof (cases "cls = ''With''")
      case True
      with nb ns invocation_at_With[of b l fs n r log] inv show ?thesis
        by (subst visit.simps) simp
    next
      case nw: False
      show ?thesis
      proof (cases "cls = ''ClassDef'' \<or> cls = ''FunctionDef''")
        case True
        from invocation_at_Decorated[OF inv True]
        have "visit_Decorated n r b log (AST cls l fs) = generic_visit n r b log (AST cls l fs)" .
        with nb ns nw True show ?thesis
          by (subst visit.simps) auto
      next
        case nd: False
        show ?thesis
        proof (cases "cls = ''Name''")
          case True
          with nb ns nw nd invocation_at_Name[of b l fs n r log] inv show ?thesis
            by (subst visit.simps) simp
        next
          case False
          with nb ns nw nd show ?thesis by (subst visit.simps) simp
        qed
      qed
    qed
  qed
qed

lemma plain_unchanged:
  "(plain b t \<longrightarrow> visit n r b log t = Some (Inr (t, log)))"
  "(plain_fields b fs \<longrightarrow> generic_fields n r b log fs = Some (Inr (fs, log)))"
  "(plain_items b xs \<longrightarrow> generic_items n r b log xs = Some (Inr (xs, log)))"
proof (induction b t and b fs and b xs arbitrary: log and log and log rule: plain_plain_fields_plain_items.induct)
  case (1 b cls l fs)
  show ?case
  proof
    assume p: "plain b (AST cls l fs)"
    then have inv: "invocation_at b (AST cls l fs) = Inr False" and pf: "plain_fields b fs" by auto
    from 1 pf have g: "generic_fields n r b log fs = Some (Inr (fs, log))" by blast
    show "visit n r b log (AST cls l fs) = Some (Inr (AST cls l fs, log))"
      unfolding visit_plain_node[OF inv] using g
      by (simp add: generic_visit.simps then_res_def)
  qed
next
  case (4 b f v fs)
  show ?case
    apply (rule impI)
    apply (subst generic_fields.simps)
    using 4 by (auto simp: then_res_def split: py.splits)
next
  case (6 b x xs)
  show ?case
    apply (rule impI)
    apply (subst generic_items.simps)
    using 6 by (auto simp: then_res_def split: py.splits)
qed (simp_all add: generic_fields.simps generic_items.simps)


text \<open>
  A module with the definition \<^verbatim>\<open>f\<close> and the expression statement \<^verbatim>\<open>A\<close>: the name \<^verbatim>\<open>A\<close> is
  bound in the examples to a macro that is not declared a name macro.
\<close>

definition example_tree :: py where
  "example_tree =
     AST ''Module'' NoAttrs
       [(''body'', ListV [example_def [],
                          AST ''Expr'' (Attrs (Some 6) (Some 0))
                            [(''value'', Name (Attrs (Some 6) (Some 0)) ''A'' Load)]])]"

text \<open>
  C7. Full expansion of a tree without invocations of the bound macros invokes no macro
  and returns the tree unchanged, whatever the fuel; with no bindings at all it returns
  any tree as it is. The tree is one that \<^verbatim>\<open>global_postprocess\<close> (the parameter, see
  \<open>expand_macros\<close>) leaves alone.
\<close>

theorem expand_macros_without_invocations:
  "(plain b tree \<and> global_postprocess tree = tree \<longrightarrow>
      expand_macros global_postprocess fuel tree b filename = Some (Inr (tree, [])))
   \<and> (global_postprocess tree = tree \<longrightarrow>
      expand_macros global_postprocess fuel tree [] filename = Some (Inr (tree, [])))"
proof -
  have "visit fuel True [] [] tree = Some (Inr (tree, []))" by (subst visit.simps) simp
  then show ?thesis
    using plain_unchanged(1)[of b tree fuel True "[]"]
    by (auto simp: expand_macros_def then_res_def)
qed

lemma plain_example_tree: "plain [(''A'', macro_A)] example_tree"
  by (simp add: example_tree_def example_def_def Name_def Pass_def invocation_at_def
      macro_Name_def ismacroname_def isnamemacro_def macro_A_def)

theorem expand_macros_without_invocations_witness:
  "plain [(''A'', macro_A)] example_tree
   \<and> (\<lambda>t. t) example_tree = example_tree
   \<and> expand_macros (\<lambda>t. t) 0 example_tree [(''A'', macro_A)] ''m.py'' = Some (Inr (example_tree, []))
   \<and> expand_macros (\<lambda>t. t) 0 example_tree [] ''m.py'' = Some (Inr (example_tree, []))"
  using expand_macros_without_invocations[of "[(''A'', macro_A)]" example_tree "\<lambda>t. t" 0 "''m.py''"]
    plain_example_tree by simp

subsection \<open>Bare identifiers\<close>


lemma isinstance_copy_location [simp]: "isinstance (copy_location r t) c = isinstance r c"
  by (cases "(r, t)" rule: copy_location.cases) simp_all

lemma getattr_copy_location [simp]: "getattr (copy_location r t) a = getattr r a"
  by (cases "(r, t)" rule: copy_location.cases) simp_all

lemma isinstance_fix_node [simp]: "isinstance (fix_node t ln co) c = isinstance t c"
  by (cases "(t, ln, co)" rule: fix_node.cases) (simp_all add: Let_def)


lemma map_of_fix_fields:
  "map_of (fix_fields fs ln co) a =
     map_option (\<lambda>v. case v of AST cls l fs' \<Rightarrow> fix_node v ln co
                      | ListV items \<Rightarrow> ListV (fix_items items ln co) | _ \<Rightarrow> v) (map_of fs a)"
  by (induction fs) (auto split: py.splits)

lemma fix_node_StrV: "fix_node t ln co = StrV m \<Longrightarrow> t = StrV m"
  by (cases "(t, ln, co)" rule: fix_node.cases) (simp_all add: Let_def)

lemma fix_value_neq_StrV:
  "((case v of AST cls l fs' \<Rightarrow> fix_node v ln co
     | ListV items \<Rightarrow> ListV (fix_items items ln co) | _ \<Rightarrow> v) \<noteq> StrV m) = (v \<noteq> StrV m)"
  by (cases v) (auto dest: fix_node_StrV)

lemma ismodified_fix_node [simp]: "ismodified m (fix_node t ln co) = ismodified m t"
proof (cases t)
  case (AST cls l fs)
  show ?thesis unfolding AST
    by (cases l)
       (simp_all add: ismodified_def Let_def map_of_fix_fields fix_value_neq_StrV
          split: option.splits)
qed (simp_all add: ismodified_def)

lemma ismodified_copy_location [simp]: "ismodified m (copy_location r t) = ismodified m r"
  by (simp add: ismodified_def)



lemma copy_location_self [simp]: "copy_location t t = t"
proof (cases t)
  case (AST cls l fs)
  then show ?thesis
  proof (cases l)
    case (Attrs ln co)
    with AST show ?thesis by (cases ln; cases co) simp_all
  qed simp
qed simp_all














subsection \<open>Source locations\<close>

text \<open>
  \<open>located t\<close>: every node of the tree that can carry a location has both its line and its
  column set. The nodes of a tree are those \<^verbatim>\<open>ast.walk\<close> reaches: the fields that are
  nodes and the items of list fields that are nodes. \<open>inherits pl pc t t'\<close>: \<open>t'\<close>
  is \<open>t\<close> with nothing changed but the location attributes that were missing in \<open>t\<close>, and
  a node that lacked one has taken the value of the node it hangs under, \<open>pl\<close> and \<open>pc\<close>
  being the line and column of the node above \<open>t\<close>. \<open>unlocated t\<close>: no node of \<open>t\<close> has a line
  or a column. \<open>all_at ln co t\<close>: every node of \<open>t\<close> that can carry a location is at line
  \<open>ln\<close>, column \<open>co\<close>.
\<close>

fun loc_complete :: "loc \<Rightarrow> bool" where
  "loc_complete NoAttrs = True"
| "loc_complete (Attrs l c) = (l \<noteq> None \<and> c \<noteq> None)"

fun located :: "py \<Rightarrow> bool"
and located_fields :: "(string \<times> py) list \<Rightarrow> bool"
and located_items :: "py list \<Rightarrow> bool" where
  "located (AST cls l fs) = (loc_complete l \<and> located_fields fs)"
| "located (ListV items) = located_items items"
| "located v = True"
| "located_fields [] = True"
| "located_fields ((f, v) # fs) = (located v \<and> located_fields fs)"
| "located_items [] = True"
| "located_items (x # xs) = ((if isAST x then located x else True) \<and> located_items xs)"

























lemma located_items_append [simp]:
  "located_items (xs @ ys) \<longleftrightarrow> located_items xs \<and> located_items ys"
  by (induction xs) auto

lemma located_items_chars [simp]: "located_items (map (\<lambda>c. StrV [c]) s)"
  by (induction s) auto






















subsection \<open>Macro discovery\<close>

text \<open>
  What \<^verbatim>\<open>find_macros\<close> takes from the Python runtime: the directory of the source file and
  the entries of \<^verbatim>\<open>sys.path\<close>, both as resolved paths; \<^verbatim>\<open>importlib.util.resolve_name\<close>;
  \<^verbatim>\<open>importlib.import_module\<close> and \<^verbatim>\<open>importlib.reload\<close>. A module is what \<^verbatim>\<open>getattr\<close> reads
  from it: its attributes, by name. The objects bound in a module are of any type \<open>'o\<close>.
\<close>

record 'o importlib =
  pyfiledir :: "string \<Rightarrow> string"
  sys_path :: "string list"
  resolve_name :: "string \<Rightarrow> py \<Rightarrow> error + string"
  import_module :: "string \<Rightarrow> error + (string \<times> 'o) list"
  reload_module :: "(string \<times> 'o) list \<Rightarrow> error + (string \<times> 'o) list"

text \<open>\<^verbatim>\<open>str\<close> of a number, a string or \<^verbatim>\<open>None\<close>, for the messages, and the truth value of an object.\<close>

fun string_of_nat :: "nat \<Rightarrow> string" where
  "string_of_nat n =
     (if n < 10 then [char_of (48 + n)] else string_of_nat (n div 10) @ [char_of (48 + n mod 10)])"

declare string_of_nat.simps [simp del]

definition str :: "py \<Rightarrow> string" where
  "str v = (case v of
              IntV i \<Rightarrow> (if i < 0 then ''-'' @ string_of_nat (nat (- i)) else string_of_nat (nat i))
            | StrV s \<Rightarrow> s
            | _ \<Rightarrow> ''None'')"

fun truthy :: "py \<Rightarrow> bool" where
  "truthy NoneV = False"
| "truthy (IntV i) = (i \<noteq> 0)"
| "truthy (StrV s) = (s \<noteq> [])"
| "truthy (ListV xs) = (xs \<noteq> [])"
| "truthy (AST cls l fs) = True"

text \<open>
  \<^verbatim>\<open>_resolve_package(filename)\<close>: the first entry of \<^verbatim>\<open>sys.path\<close> that is a prefix of the
  directory of the file decides; the rest of the directory, without its leading
  separator \<^verbatim>\<open>/\<close> and with dots for separators, is the package.
\<close>

fun resolve_package_loop :: "string \<Rightarrow> string \<Rightarrow> string list \<Rightarrow> error + string" where
  "resolve_package_loop filename dir [] =
     Inl (ImportError (filename @ '' not under any directory in '' @ [CHR 0x60] @ ''sys.path'' @ [CHR 0x60]))"
| "resolve_package_loop filename dir (rootdir # rootdirs) =
     (if take (length rootdir) dir = rootdir then
        (if drop (length rootdir) dir = []
         then Inl (ValueError (filename @ '' not in package, is at root level of '' @ rootdir))
         else Inr (map (\<lambda>c. if c = CHR ''/'' then CHR ''.'' else c) (drop 1 (drop (length rootdir) dir))))
      else resolve_package_loop filename dir rootdirs)"

definition resolve_package :: "'o importlib \<Rightarrow> string \<Rightarrow> error + string" where
  "resolve_package il filename = resolve_package_loop filename (pyfiledir il filename) (sys_path il)"

text \<open>\<^verbatim>\<open>_is_macro_import(statement)\<close>.\<close>

definition is_macro_import :: "py \<Rightarrow> error + bool" where
  "is_macro_import statement = ismacroimport statement ''macros''"

text \<open>
  \<^verbatim>\<open>_get_macros(macroimport, filename, reload)\<close>, in two steps: \<open>import_macro_module\<close> is the
  function up to the \<^verbatim>\<open>return\<close>, giving the absolute name of the module and the module;
  \<open>bind_names\<close> is the dictionary comprehension of the \<^verbatim>\<open>return\<close> statement over
  \<^verbatim>\<open>macroimport.names[1:]\<close>, \<open>binding_name\<close> its key \<^verbatim>\<open>name.asname or name.name\<close>. A
  dictionary is an association list updated with \<open>AList.update\<close> and read with \<open>map_of\<close>.
\<close>

definition import_macro_module ::
  "'o importlib \<Rightarrow> py \<Rightarrow> string \<Rightarrow> bool \<Rightarrow> error + (string \<times> (string \<times> 'o) list)" where
  "import_macro_module il macroimport filename reload =
     (let lineno = (case macroimport of AST cls (Attrs (Some l) c) fs \<Rightarrow> IntV l | _ \<Rightarrow> NoneV) in
      case getattr macroimport ''module'' of
        Inl e \<Rightarrow> Inl e
      | Inr NoneV \<Rightarrow>
          Inl (SyntaxError (filename @ '':'' @ str lineno @ '': missing module name in macro-import''))
      | Inr module_name \<Rightarrow>
          (case getattr macroimport ''level'' of
             Inl e \<Rightarrow> Inl e
           | Inr level \<Rightarrow>
               (case (if truthy level then
                        (case resolve_package il filename of
                           Inl (ValueError m) \<Rightarrow>
                             Inl (SyntaxError (filename @ '':'' @ str lineno
                                    @ '': relative import outside any package''))
                         | Inl (ImportError m) \<Rightarrow>
                             Inl (ImportError (filename @ '':'' @ str lineno
                                    @ '': could not determine containing package to resolve relative import''))
                         | Inl e \<Rightarrow> Inl e
                         | Inr package \<Rightarrow> Inr (StrV package))
                      else Inr NoneV) of
                  Inl e \<Rightarrow> Inl e
                | Inr package \<Rightarrow>
                    (case (level, module_name) of
                       (IntV k, StrV m) \<Rightarrow>
                         (case resolve_name il (replicate (nat k) CHR ''.'' @ m) package of
                            Inl e \<Rightarrow> Inl e
                          | Inr module_fullname \<Rightarrow>
                              (case import_module il module_fullname of
                                 Inl e \<Rightarrow> Inl e
                               | Inr module \<Rightarrow>
                                   (if reload then
                                      (case reload_module il module of
                                         Inl e \<Rightarrow> Inl e
                                       | Inr module' \<Rightarrow> Inr (module_fullname, module'))
                                    else Inr (module_fullname, module))))
                     | _ \<Rightarrow> Inl (TypeError ''level'')))))"

definition binding_name :: "py \<Rightarrow> string" where
  "binding_name name =
     (case getattr name ''asname'' of
        Inr asname \<Rightarrow>
          if truthy asname then str asname
          else (case getattr name ''name'' of Inr n \<Rightarrow> str n | Inl e \<Rightarrow> [])
      | Inl e \<Rightarrow> [])"

fun bind_names ::
  "(string \<times> 'o) list \<Rightarrow> py list \<Rightarrow> (string \<times> 'o) list \<Rightarrow> error + (string \<times> 'o) list" where
  "bind_names module [] d = Inr d"
| "bind_names module (name # names) d =
     (case getattr name ''asname'' of
        Inl e \<Rightarrow> Inl e
      | Inr asname \<Rightarrow>
          (case getattr name ''name'' of
             Inl e \<Rightarrow> Inl e
           | Inr (StrV n) \<Rightarrow>
               (case map_of module n of
                  None \<Rightarrow> Inl (AttributeError n)
                | Some v \<Rightarrow> bind_names module names (AList.update (binding_name name) v d))
           | Inr _ \<Rightarrow> Inl (TypeError ''attribute name must be string'')))"

definition get_macros' ::
  "'o importlib \<Rightarrow> py \<Rightarrow> string \<Rightarrow> bool \<Rightarrow> error + (string \<times> (string \<times> 'o) list)" where
  "get_macros' il macroimport filename reload =
     (case import_macro_module il macroimport filename reload of
        Inl e \<Rightarrow> Inl e
      | Inr (module_fullname, module) \<Rightarrow>
          (case getattr macroimport ''names'' of
             Inl e \<Rightarrow> Inl e
           | Inr (ListV names) \<Rightarrow>
               (case bind_names module (drop 1 names) [] of
                  Inl e \<Rightarrow> Inl e
                | Inr d \<Rightarrow> Inr (module_fullname, d))
           | Inr _ \<Rightarrow> Inl (TypeError ''names'')))"

text \<open>\<^verbatim>\<open>bindings.update(more_bindings)\<close>, and the loop of \<^verbatim>\<open>find_macros\<close> over the module body.\<close>

fun dict_update :: "(string \<times> 'o) list \<Rightarrow> (string \<times> 'o) list \<Rightarrow> (string \<times> 'o) list" where
  "dict_update d [] = d"
| "dict_update d ((k, v) # rest) = dict_update (AList.update k v d) rest"

fun find_macros_loop ::
  "'o importlib \<Rightarrow> string \<Rightarrow> bool \<Rightarrow> py list \<Rightarrow> (string \<times> 'o) list
     \<Rightarrow> error + (py list \<times> (string \<times> 'o) list)" where
  "find_macros_loop il filename reload [] bindings = Inr ([], bindings)"
| "find_macros_loop il filename reload (statement # body) bindings =
     (case is_macro_import statement of
        Inl e \<Rightarrow> Inl e
      | Inr True \<Rightarrow>
          (case get_macros' il statement filename reload of
             Inl e \<Rightarrow> Inl e
           | Inr (module_fullname, more_bindings) \<Rightarrow>
               (case find_macros_loop il filename reload body (dict_update bindings more_bindings) of
                  Inl e \<Rightarrow> Inl e
                | Inr (body', bindings') \<Rightarrow>
                    Inr (copy_location (Import module_fullname) statement # body', bindings')))
      | Inr False \<Rightarrow>
          (case find_macros_loop il filename reload body bindings of
             Inl e \<Rightarrow> Inl e
           | Inr (body', bindings') \<Rightarrow> Inr (statement # body', bindings')))"

definition find_macros ::
  "'o importlib \<Rightarrow> py \<Rightarrow> string \<Rightarrow> bool \<Rightarrow> error + ((string \<times> 'o) list \<times> py)" where
  "find_macros il tree filename reload =
     (case getattr tree ''body'' of
        Inl e \<Rightarrow> Inl e
      | Inr (ListV body) \<Rightarrow>
          (case find_macros_loop il filename reload body [] of
             Inl e \<Rightarrow> Inl e
           | Inr (body', bindings) \<Rightarrow> Inr (bindings, setattr tree ''body'' (ListV body')))
      | Inr _ \<Rightarrow> Inl (TypeError ''body''))"

text \<open>The names bound by the macro-imports of a list of statements.\<close>

fun bound_names :: "'o importlib \<Rightarrow> string \<Rightarrow> bool \<Rightarrow> py list \<Rightarrow> string list" where
  "bound_names il filename reload [] = []"
| "bound_names il filename reload (statement # body) =
     (case is_macro_import statement of
        Inr True \<Rightarrow>
          (case get_macros' il statement filename reload of
             Inr (module_fullname, more_bindings) \<Rightarrow> map fst more_bindings
           | Inl e \<Rightarrow> [])
      | _ \<Rightarrow> []) @ bound_names il filename reload body"

text \<open>
  Nodes as the parser builds them, and an import system for the examples: the file is
  \<^verbatim>\<open>/src/pkg/m.py\<close> with \<^verbatim>\<open>/src\<close> on \<^verbatim>\<open>sys.path\<close>; the modules \<^verbatim>\<open>a\<close> and \<^verbatim>\<open>b\<close> each define
  \<^verbatim>\<open>foo\<close>, and \<^verbatim>\<open>pkg.quotes\<close> defines \<^verbatim>\<open>q\<close> and \<^verbatim>\<open>n\<close>. An object is represented by its
  qualified name.
\<close>

definition ast_alias :: "string \<Rightarrow> py \<Rightarrow> py" where
  "ast_alias name asname = AST ''alias'' NoAttrs [(''name'', StrV name), (''asname'', asname)]"

definition ImportFrom :: "int \<Rightarrow> string \<Rightarrow> py list \<Rightarrow> int \<Rightarrow> py" where
  "ImportFrom lineno module names level =
     AST ''ImportFrom'' (Attrs (Some lineno) (Some 0))
       [(''module'', StrV module), (''names'', ListV names), (''level'', IntV level)]"

definition Import_at :: "int \<Rightarrow> string \<Rightarrow> py" where
  "Import_at lineno module_fullname =
     AST ''Import'' (Attrs (Some lineno) (Some 0)) [(''names'', ListV [ast_alias module_fullname NoneV])]"

definition example_importlib :: "string importlib" where
  "example_importlib =
     \<lparr>pyfiledir = (\<lambda>filename. ''/src/pkg''),
      sys_path = [''/src''],
      resolve_name = (\<lambda>name package.
         case (name, package) of
           (CHR ''.'' # rest, StrV p) \<Rightarrow> Inr (p @ ''.'' @ rest)
         | (CHR ''.'' # rest, _) \<Rightarrow> Inl (ImportError ''no package specified for relative import'')
         | _ \<Rightarrow> Inr name),
      import_module = (\<lambda>m.
         if m = ''a'' then Inr [(''foo'', ''a.foo'')]
         else if m = ''b'' then Inr [(''foo'', ''b.foo'')]
         else if m = ''pkg.quotes'' then Inr [(''q'', ''pkg.quotes.q''), (''n'', ''pkg.quotes.n'')]
         else Inl (ImportError m)),
      reload_module = (\<lambda>module. Inr module)\<rparr>"

lemma dict_update_other:
  "k \<notin> fst ` set rest \<Longrightarrow> map_of (dict_update d rest) k = map_of d k"
  by (induction d rest rule: dict_update.induct) (auto simp: update_conv')

lemma dict_update_bound:
  "distinct (map fst rest) \<Longrightarrow> map_of rest k = Some v \<Longrightarrow> map_of (dict_update d rest) k = Some v"
proof (induction d rest rule: dict_update.induct)
  case (1 d)
  then show ?case by simp
next
  case (2 d k' v' rest)
  show ?case
  proof (cases "k = k'")
    case True
    with 2 have "v = v'" "k \<notin> fst ` set rest" by auto
    with True show ?thesis by (simp add: dict_update_other update_conv')
  next
    case False
    with 2 show ?thesis by simp
  qed
qed

lemma bind_names_distinct:
  "bind_names module names d = Inr d' \<Longrightarrow> distinct (map fst d) \<Longrightarrow> distinct (map fst d')"
  by (induction names arbitrary: d) (auto simp: distinct_update split: sum.splits py.splits option.splits)

lemma bind_names_keep:
  "bind_names module names d = Inr d' \<Longrightarrow> k \<notin> set (map binding_name names) \<Longrightarrow>
   map_of d' k = map_of d k"
  by (induction names arbitrary: d) (auto simp: update_conv' split: sum.splits py.splits option.splits)

lemma bind_names_append:
  "bind_names module (xs @ ys) d =
     (case bind_names module xs d of Inl e \<Rightarrow> Inl e | Inr d1 \<Rightarrow> bind_names module ys d1)"
  by (induction xs arbitrary: d) (auto split: sum.splits py.splits option.splits)

lemma bind_names_listed:
  assumes "bind_names module (before @ name # after) d = Inr d'"
      and "getattr name ''name'' = Inr (StrV n)"
      and "binding_name name \<notin> set (map binding_name after)"
  shows "map_of d' (binding_name name) = map_of module n \<and> map_of module n \<noteq> None"
proof -
  from assms(1) obtain d1 where "bind_names module (name # after) d1 = Inr d'"
    by (auto simp: bind_names_append split: sum.splits)
  with assms(2) obtain v where v: "map_of module n = Some v"
    and r: "bind_names module after (AList.update (binding_name name) v d1) = Inr d'"
    by (auto split: sum.splits option.splits)
  from bind_names_keep[OF r assms(3)] v show ?thesis by (simp add: update_conv')
qed

lemma get_macros'_distinct:
  "get_macros' il macroimport filename reload = Inr (module_fullname, d) \<Longrightarrow> distinct (map fst d)"
proof -
  assume "get_macros' il macroimport filename reload = Inr (module_fullname, d)"
  then obtain module names where "bind_names module (drop 1 names) [] = Inr d"
    by (auto simp: get_macros'_def split: sum.splits py.splits)
  from bind_names_distinct[OF this] show ?thesis by simp
qed

lemma find_macros_loop_length:
  "find_macros_loop il filename reload body b = Inr (body', b') \<Longrightarrow> length body' = length body"
  by (induction body arbitrary: b body') (auto split: sum.splits bool.splits)

lemma find_macros_loop_keep:
  "find_macros_loop il filename reload body b = Inr (body', b') \<Longrightarrow>
   k \<notin> set (bound_names il filename reload body) \<Longrightarrow> map_of b' k = map_of b k"
proof (induction body arbitrary: b body')
  case Nil
  then show ?case by simp
next
  case (Cons statement body)
  show ?case
  proof (cases "is_macro_import statement = Inr True")
    case True
    with Cons.prems(1) obtain mf d rest' where
      g: "get_macros' il statement filename reload = Inr (mf, d)"
      and r: "find_macros_loop il filename reload body (dict_update b d) = Inr (rest', b')"
      by (auto split: sum.splits)
    from Cons.prems(2) True g have k: "k \<notin> fst ` set d" "k \<notin> set (bound_names il filename reload body)"
      by auto
    from Cons.IH[OF r k(2)] dict_update_other[OF k(1)] show ?thesis by simp
  next
    case False
    with Cons.prems(1) obtain rest' where
      r: "find_macros_loop il filename reload body b = Inr (rest', b')"
      by (auto split: sum.splits bool.splits)
    from Cons.prems(2) have "k \<notin> set (bound_names il filename reload body)" by simp
    from Cons.IH[OF r this] show ?thesis .
  qed
qed

lemma find_macros_loop_append:
  "find_macros_loop il filename reload (xs @ ys) b =
     (case find_macros_loop il filename reload xs b of
        Inl e \<Rightarrow> Inl e
      | Inr (xs', b1) \<Rightarrow>
          (case find_macros_loop il filename reload ys b1 of
             Inl e \<Rightarrow> Inl e
           | Inr (ys', b2) \<Rightarrow> Inr (xs' @ ys', b2)))"
  by (induction xs arbitrary: b) (auto split: sum.splits bool.splits)

lemma getattr_setattr:
  "getattr obj a = Inr x \<Longrightarrow> getattr (setattr obj a v) a = Inr v"
  by (cases obj) (auto simp: update_conv' split: option.splits)

text \<open>
  C5, as the claim states it, fails: \<^verbatim>\<open>from a import macros, foo\<close> followed by
  \<^verbatim>\<open>from b import macros, foo\<close>. Both statements are rewritten, and the table maps \<^verbatim>\<open>foo\<close>
  to the attribute of \<^verbatim>\<open>b\<close>: the name listed by the first statement is not mapped to the
  attribute \<^verbatim>\<open>foo\<close> of the module \<^verbatim>\<open>a\<close> that statement resolves to.
\<close>

theorem later_macro_import_rebinds_name:
  "find_macros example_importlib
     (Module [ImportFrom 1 ''a'' [ast_alias ''macros'' NoneV, ast_alias ''foo'' NoneV] 0,
              ImportFrom 2 ''b'' [ast_alias ''macros'' NoneV, ast_alias ''foo'' NoneV] 0]) ''/src/pkg/m.py'' False
   = Inr ([(''foo'', ''b.foo'')], Module [Import_at 1 ''a'', Import_at 2 ''b''])
   \<and> import_macro_module example_importlib
        (ImportFrom 1 ''a'' [ast_alias ''macros'' NoneV, ast_alias ''foo'' NoneV] 0) ''/src/pkg/m.py'' False
     = Inr (''a'', [(''foo'', ''a.foo'')])
   \<and> map_of [(''foo'', ''b.foo'')] ''foo'' \<noteq> map_of [(''foo'', ''a.foo'')] ''foo''"
  by (simp add: find_macros_def Module_def ImportFrom_def ast_alias_def is_macro_import_def
      ismacroimport_def get_macros'_def import_macro_module_def example_importlib_def
      binding_name_def Import_def Import_at_def Let_def str_def)

text \<open>
  C5, amended. When macro discovery returns, every top-level statement
  \<^verbatim>\<open>from <module> import macros, ...\<close> has been replaced, at its place in the body, by
  \<^verbatim>\<open>import <resolved-module>\<close>, a plain import of the absolute name of the module, at the
  location of the statement; and the table maps every name listed in the statement (its
  alias when given) to the attribute of that name of the imported module, unless the same
  binding name is listed again later in the statement or in a later macro-import, the last
  listing being the one that counts.
\<close>

theorem find_macros_rewrites_and_binds:
  assumes "find_macros il tree filename reload = Inr (bindings, tree')"
      and "getattr tree ''body'' = Inr (ListV (pre @ statement # post))"
      and "is_macro_import statement = Inr True"
  shows "\<exists>module_fullname module pre' post'.
           import_macro_module il statement filename reload = Inr (module_fullname, module)
         \<and> getattr tree' ''body''
             = Inr (ListV (pre' @ copy_location (Import module_fullname) statement # post'))
         \<and> length pre' = length pre \<and> length post' = length post
         \<and> (\<forall>first before name after n.
               getattr statement ''names'' = Inr (ListV (first # before @ name # after))
               \<and> getattr name ''name'' = Inr (StrV n)
               \<and> binding_name name \<notin> set (map binding_name after)
               \<and> binding_name name \<notin> set (bound_names il filename reload post)
               \<longrightarrow> map_of bindings (binding_name name) = map_of module n \<and> map_of module n \<noteq> None)"
proof -
  from assms(1,2) obtain body' where
    loop: "find_macros_loop il filename reload (pre @ statement # post) [] = Inr (body', bindings)"
    and t': "tree' = setattr tree ''body'' (ListV body')"
    by (auto simp: find_macros_def split: sum.splits)
  from loop obtain pre' b1 rest' where
    p: "find_macros_loop il filename reload pre [] = Inr (pre', b1)"
    and s: "find_macros_loop il filename reload (statement # post) b1 = Inr (rest', bindings)"
    and b: "body' = pre' @ rest'"
    by (auto simp: find_macros_loop_append split: sum.splits)
  from s assms(3) obtain mf d post' where
    g: "get_macros' il statement filename reload = Inr (mf, d)"
    and r: "find_macros_loop il filename reload post (dict_update b1 d) = Inr (post', bindings)"
    and rest': "rest' = copy_location (Import mf) statement # post'"
    by (auto split: sum.splits)
  from g obtain module names where
    im: "import_macro_module il statement filename reload = Inr (mf, module)"
    and ns: "getattr statement ''names'' = Inr (ListV names)"
    and bn: "bind_names module (drop 1 names) [] = Inr d"
    by (auto simp: get_macros'_def split: sum.splits py.splits)
  have body: "getattr tree' ''body'' = Inr (ListV (pre' @ copy_location (Import mf) statement # post'))"
    unfolding t' b rest' by (rule getattr_setattr[OF assms(2)])
  have len: "length pre' = length pre" "length post' = length post"
    using find_macros_loop_length[OF p] find_macros_loop_length[OF r] by simp_all
  have bound: "map_of bindings (binding_name name) = map_of module n \<and> map_of module n \<noteq> None"
    if l: "getattr statement ''names'' = Inr (ListV (first # before @ name # after))"
      and nm: "getattr name ''name'' = Inr (StrV n)"
      and k1: "binding_name name \<notin> set (map binding_name after)"
      and k2: "binding_name name \<notin> set (bound_names il filename reload post)"
    for first before name after n
  proof -
    from l ns have "drop 1 names = before @ name # after" by simp
    with bn have "bind_names module (before @ name # after) [] = Inr d" by simp
    from bind_names_listed[OF this nm k1]
    have d: "map_of d (binding_name name) = map_of module n" "map_of module n \<noteq> None" by simp_all
    then obtain v where v: "map_of d (binding_name name) = Some v" by auto
    have "map_of (dict_update b1 d) (binding_name name) = Some v"
      by (rule dict_update_bound[OF get_macros'_distinct[OF g] v])
    with find_macros_loop_keep[OF r k2] d v show ?thesis by simp
  qed
  from im body len bound show ?thesis by blast
qed

theorem find_macros_rewrites_and_binds_witness:
  "find_macros example_importlib
     (Module [ImportFrom 1 ''quotes'' [ast_alias ''macros'' NoneV, ast_alias ''q'' (StrV ''quote''),
                                       ast_alias ''n'' NoneV] 1,
              AST ''Pass'' (Attrs (Some 2) (Some 0)) [],
              ImportFrom 3 ''a'' [ast_alias ''macros'' NoneV, ast_alias ''foo'' NoneV] 0])
     ''/src/pkg/m.py'' False
   = Inr ([(''quote'', ''pkg.quotes.q''), (''n'', ''pkg.quotes.n''), (''foo'', ''a.foo'')],
          Module [Import_at 1 ''pkg.quotes'', AST ''Pass'' (Attrs (Some 2) (Some 0)) [], Import_at 3 ''a''])
   \<and> is_macro_import (ImportFrom 1 ''quotes'' [ast_alias ''macros'' NoneV, ast_alias ''q'' (StrV ''quote''),
                                       ast_alias ''n'' NoneV] 1) = Inr True
   \<and> import_macro_module example_importlib
        (ImportFrom 1 ''quotes'' [ast_alias ''macros'' NoneV, ast_alias ''q'' (StrV ''quote''),
                                  ast_alias ''n'' NoneV] 1) ''/src/pkg/m.py'' False
       = Inr (''pkg.quotes'', [(''q'', ''pkg.quotes.q''), (''n'', ''pkg.quotes.n'')])
   \<and> copy_location (Import ''pkg.quotes'')
        (ImportFrom 1 ''quotes'' [ast_alias ''macros'' NoneV, ast_alias ''q'' (StrV ''quote''),
                                  ast_alias ''n'' NoneV] 1) = Import_at 1 ''pkg.quotes''
   \<and> binding_name (ast_alias ''q'' (StrV ''quote'')) = ''quote''
   \<and> ''quote'' \<notin> set (map binding_name [ast_alias ''n'' NoneV])
   \<and> ''quote'' \<notin> set (bound_names example_importlib ''/src/pkg/m.py'' False
        [AST ''Pass'' (Attrs (Some 2) (Some 0)) [],
         ImportFrom 3 ''a'' [ast_alias ''macros'' NoneV, ast_alias ''foo'' NoneV] 0])
   \<and> map_of [(''quote'', ''pkg.quotes.q''), (''n'', ''pkg.quotes.n''), (''foo'', ''a.foo'')] ''quote''
       = map_of [(''q'', ''pkg.quotes.q''), (''n'', ''pkg.quotes.n'')] ''q''
   \<and> map_of [(''q'', ''pkg.quotes.q''), (''n'', ''pkg.quotes.n'')] ''q'' = Some ''pkg.quotes.q''"
proof -
  let ?s1 = "ImportFrom 1 ''quotes'' [ast_alias ''macros'' NoneV, ast_alias ''q'' (StrV ''quote''),
                                      ast_alias ''n'' NoneV] 1"
  let ?post = "[AST ''Pass'' (Attrs (Some 2) (Some 0)) [],
                ImportFrom 3 ''a'' [ast_alias ''macros'' NoneV, ast_alias ''foo'' NoneV] 0]"
  let ?tree = "Module ([] @ ?s1 # ?post)"
  let ?bindings = "[(''quote'', ''pkg.quotes.q''), (''n'', ''pkg.quotes.n''), (''foo'', ''a.foo'')]"
  let ?tree' = "Module [Import_at 1 ''pkg.quotes'', AST ''Pass'' (Attrs (Some 2) (Some 0)) [], Import_at 3 ''a'']"
  have run: "find_macros example_importlib ?tree ''/src/pkg/m.py'' False = Inr (?bindings, ?tree')"
    by (simp add: find_macros_def Module_def ImportFrom_def ast_alias_def is_macro_import_def
        ismacroimport_def get_macros'_def import_macro_module_def example_importlib_def
        binding_name_def Import_def Import_at_def Let_def str_def resolve_package_def)
  have body: "getattr ?tree ''body'' = Inr (ListV ([] @ ?s1 # ?post))"
    by (simp add: Module_def)
  have mi: "is_macro_import ?s1 = Inr True"
    by (simp add: is_macro_import_def ismacroimport_def ImportFrom_def ast_alias_def)
  have im: "import_macro_module example_importlib ?s1 ''/src/pkg/m.py'' False
       = Inr (''pkg.quotes'', [(''q'', ''pkg.quotes.q''), (''n'', ''pkg.quotes.n'')])"
    by (simp add: import_macro_module_def ImportFrom_def example_importlib_def Let_def
        resolve_package_def)
  have cl: "copy_location (Import ''pkg.quotes'') ?s1 = Import_at 1 ''pkg.quotes''"
    by (simp add: Import_def ImportFrom_def Import_at_def ast_alias_def)
  have ns: "getattr ?s1 ''names''
      = Inr (ListV (ast_alias ''macros'' NoneV # [] @ ast_alias ''q'' (StrV ''quote'') # [ast_alias ''n'' NoneV]))"
    by (simp add: ImportFrom_def)
  have nm: "getattr (ast_alias ''q'' (StrV ''quote'')) ''name'' = Inr (StrV ''q'')"
    by (simp add: ast_alias_def)
  have bk: "binding_name (ast_alias ''q'' (StrV ''quote'')) = ''quote''"
    by (simp add: binding_name_def ast_alias_def str_def)
  have k1: "''quote'' \<notin> set (map binding_name [ast_alias ''n'' NoneV])"
    by (simp add: binding_name_def ast_alias_def str_def)
  have k2: "''quote'' \<notin> set (bound_names example_importlib ''/src/pkg/m.py'' False ?post)"
    by (simp add: is_macro_import_def ismacroimport_def ImportFrom_def ast_alias_def
        get_macros'_def import_macro_module_def example_importlib_def binding_name_def Let_def str_def)
  from find_macros_rewrites_and_binds[OF run body mi] obtain module_fullname module pre' post' where
    1: "import_macro_module example_importlib ?s1 ''/src/pkg/m.py'' False = Inr (module_fullname, module)"
    and 2: "\<forall>first before name after n.
               getattr ?s1 ''names'' = Inr (ListV (first # before @ name # after))
               \<and> getattr name ''name'' = Inr (StrV n)
               \<and> binding_name name \<notin> set (map binding_name after)
               \<and> binding_name name \<notin> set (bound_names example_importlib ''/src/pkg/m.py'' False ?post)
               \<longrightarrow> map_of ?bindings (binding_name name) = map_of module n \<and> map_of module n \<noteq> None"
    by blast
  from 1 im have m: "module = [(''q'', ''pkg.quotes.q''), (''n'', ''pkg.quotes.n'')]" by simp
  from 2 ns nm k1 k2 bk
  have "map_of ?bindings ''quote'' = map_of module ''q''"
    by (metis (no_types, lifting))
  with m have b: "map_of ?bindings ''quote'' = map_of [(''q'', ''pkg.quotes.q''), (''n'', ''pkg.quotes.n'')] ''q''"
    by simp
  have v: "map_of [(''q'', ''pkg.quotes.q''), (''n'', ''pkg.quotes.n'')] ''q'' = Some ''pkg.quotes.q''"
    by simp
  from run have run': "find_macros example_importlib (Module (?s1 # ?post)) ''/src/pkg/m.py'' False
      = Inr (?bindings, ?tree')" by simp
  show ?thesis
    using run' mi im cl bk k1 k2 b v by (intro conjI)
qed


section \<open>Statement splicing (mcpy/splicing.py)\<close>

text \<open>
  \<^verbatim>\<open>splice_statements\<close> edits the template in place, and what it is to guarantee is about
  which objects end up where (the statements of \<^verbatim>\<open>body\<close> themselves, or copies of them).
  So here the nodes live in a store: a list of objects, the address of a node being its
  index. An object has a class name and fields; a field holds \<^verbatim>\<open>None\<close>, a string, a number,
  a reference to a node, or a list of such values.
\<close>

datatype val = VNone | VStr string | VInt int | Ref nat | VList "val list"

datatype obj = Obj string "(string \<times> val) list"

type_synonym store = "obj list"

fun obj_class :: "obj \<Rightarrow> string" where
  "obj_class (Obj cls fs) = cls"

fun obj_fields :: "obj \<Rightarrow> (string \<times> val) list" where
  "obj_fields (Obj cls fs) = fs"

definition setfield :: "store \<Rightarrow> nat \<Rightarrow> string \<Rightarrow> val \<Rightarrow> store" where
  "setfield h a f v = h[a := Obj (obj_class (h ! a)) (AList.update f v (obj_fields (h ! a)))]"

definition delfield :: "store \<Rightarrow> nat \<Rightarrow> string \<Rightarrow> store" where
  "delfield h a f = h[a := Obj (obj_class (h ! a)) (AList.delete f (obj_fields (h ! a)))]"

text \<open>\<^verbatim>\<open>isinstance(v, ast.AST)\<close>, the truth value of an object, and the test \<^verbatim>\<open>ispastehere\<close>.\<close>

fun isinstance_AST :: "val \<Rightarrow> bool" where
  "isinstance_AST (Ref a) = True"
| "isinstance_AST _ = False"

fun truth :: "val \<Rightarrow> bool" where
  "truth VNone = False"
| "truth (VStr s) = (s \<noteq> [])"
| "truth (VInt i) = (i \<noteq> 0)"
| "truth (Ref a) = True"
| "truth (VList vs) = (vs \<noteq> [])"

definition ispastehere :: "store \<Rightarrow> string \<Rightarrow> val \<Rightarrow> error + bool" where
  "ispastehere h tag tree =
     (case tree of
        Ref a \<Rightarrow>
          if a < length h \<and> obj_class (h ! a) = ''Expr'' then
            (case map_of (obj_fields (h ! a)) ''value'' of
               None \<Rightarrow> Inl (AttributeError ''value'')
             | Some (Ref b) \<Rightarrow>
                 if b < length h \<and> obj_class (h ! b) = ''Name'' then
                   (case map_of (obj_fields (h ! b)) ''id'' of
                      None \<Rightarrow> Inl (AttributeError ''id'')
                    | Some ident \<Rightarrow> Inr (ident = VStr tag))
                 else Inr False
             | Some _ \<Rightarrow> Inr False)
          else Inr False
      | _ \<Rightarrow> Inr False)"

text \<open>
  \<^verbatim>\<open>copy.deepcopy\<close> of the standard library: a node not yet in the memo gets a fresh object,
  which is entered in the memo before its fields are copied; strings and numbers are
  shared, lists are copied item by item. Stores may hold cycles, so the copy runs on fuel.
\<close>

fun deepcopy :: "nat \<Rightarrow> store \<Rightarrow> (nat \<times> nat) list \<Rightarrow> val \<Rightarrow> (val \<times> store \<times> (nat \<times> nat) list) option"
and deepcopy_list ::
  "nat \<Rightarrow> store \<Rightarrow> (nat \<times> nat) list \<Rightarrow> val list \<Rightarrow> (val list \<times> store \<times> (nat \<times> nat) list) option"
and deepcopy_fields ::
  "nat \<Rightarrow> store \<Rightarrow> (nat \<times> nat) list \<Rightarrow> (string \<times> val) list
     \<Rightarrow> ((string \<times> val) list \<times> store \<times> (nat \<times> nat) list) option" where
  "deepcopy n h memo VNone = Some (VNone, h, memo)"
| "deepcopy n h memo (VStr s) = Some (VStr s, h, memo)"
| "deepcopy n h memo (VInt i) = Some (VInt i, h, memo)"
| "deepcopy n h memo (VList vs) =
     (case deepcopy_list n h memo vs of
        None \<Rightarrow> None
      | Some (vs', h', memo') \<Rightarrow> Some (VList vs', h', memo'))"
| "deepcopy 0 h memo (Ref a) =
     (case map_of memo a of Some a' \<Rightarrow> Some (Ref a', h, memo) | None \<Rightarrow> None)"
| "deepcopy (Suc k) h memo (Ref a) =
     (case map_of memo a of
        Some a' \<Rightarrow> Some (Ref a', h, memo)
      | None \<Rightarrow>
          if a < length h then
            (case deepcopy_fields k (h @ [Obj (obj_class (h ! a)) []]) ((a, length h) # memo)
                    (obj_fields (h ! a)) of
               None \<Rightarrow> None
             | Some (fs', h', memo') \<Rightarrow>
                 Some (Ref (length h), h'[length h := Obj (obj_class (h ! a)) fs'], memo'))
          else None)"
| "deepcopy_list n h memo [] = Some ([], h, memo)"
| "deepcopy_list n h memo (v # vs) =
     (case deepcopy n h memo v of
        None \<Rightarrow> None
      | Some (v', h', memo') \<Rightarrow>
          (case deepcopy_list n h' memo' vs of
             None \<Rightarrow> None
           | Some (vs', h'', memo'') \<Rightarrow> Some (v' # vs', h'', memo'')))"
| "deepcopy_fields n h memo [] = Some ([], h, memo)"
| "deepcopy_fields n h memo ((f, v) # fs) =
     (case deepcopy n h memo v of
        None \<Rightarrow> None
      | Some (v', h', memo') \<Rightarrow>
          (case deepcopy_fields n h' memo' fs of
             None \<Rightarrow> None
           | Some (fs', h'', memo'') \<Rightarrow> Some ((f, v') # fs', h'', memo'')))"

text \<open>
  The \<^verbatim>\<open>StatementSplicer\<close>: its state is the store and the flag \<^verbatim>\<open>first\<close>. \<open>paste\<close> is
  what \<^verbatim>\<open>transform\<close> does at a paste-here indicator.

  Modelled from the spec: \<^verbatim>\<open>Walker\<close> is defined in \<^verbatim>\<open>mcpy/walker.py\<close>, which is not among the
  sources; the spec calls it a generic recursive tree rewrite helper. It is taken to be an
  \<^verbatim>\<open>ast.NodeTransformer\<close> whose \<^verbatim>\<open>visit\<close> passes \<^verbatim>\<open>None\<close> through, maps itself over the
  items of a list (dropping \<^verbatim>\<open>None\<close>, splicing in lists) and hands a node to \<^verbatim>\<open>transform\<close>.
  \<^verbatim>\<open>generic_visit\<close> is \<^verbatim>\<open>NodeTransformer.generic_visit\<close> of the standard library: it goes
  through the fields of the node, reads each when its turn comes, visits the items of a
  list field that are nodes and stores the new list, and visits a field that is a node.
  Visiting a node takes one unit of fuel.
\<close>

type_synonym splicer = "store \<times> bool"

definition paste :: "nat \<Rightarrow> val \<Rightarrow> splicer \<Rightarrow> (val \<times> splicer) res" where
  "paste k body st =
     (case st of (h, first) \<Rightarrow>
        if \<not> first then
          (case deepcopy k h [] body of
             None \<Rightarrow> None
           | Some (body', h', memo) \<Rightarrow> Some (Inr (body', (h', first))))
        else Some (Inr (body, (h, False))))"

function walk :: "nat \<Rightarrow> val \<Rightarrow> string \<Rightarrow> splicer \<Rightarrow> val \<Rightarrow> (val \<times> splicer) res"
and walk_list :: "nat \<Rightarrow> val \<Rightarrow> string \<Rightarrow> splicer \<Rightarrow> val list \<Rightarrow> (val list \<times> splicer) res"
and walk_fields :: "nat \<Rightarrow> val \<Rightarrow> string \<Rightarrow> splicer \<Rightarrow> nat \<Rightarrow> string list \<Rightarrow> splicer res"
and walk_items :: "nat \<Rightarrow> val \<Rightarrow> string \<Rightarrow> splicer \<Rightarrow> val list \<Rightarrow> (val list \<times> splicer) res" where
  "walk n body tag st VNone = Some (Inr (VNone, st))"
| "walk n body tag st (VList elts) =
     then_res (walk_list n body tag st elts) (\<lambda>(new_tree, st').
       Some (Inr (if new_tree \<noteq> [] then VList new_tree else VNone, st')))"
| "walk n body tag st (VStr s) = Some (Inl (AttributeError ''_fields''))"
| "walk n body tag st (VInt i) = Some (Inl (AttributeError ''_fields''))"
| "walk 0 body tag st (Ref a) = None"
| "walk (Suc k) body tag st (Ref a) =
     (case ispastehere (fst st) tag (Ref a) of
        Inl e \<Rightarrow> Some (Inl e)
      | Inr True \<Rightarrow> paste k body st
      | Inr False \<Rightarrow>
          if a < length (fst st) then
            then_res (walk_fields k body tag st a (map fst (obj_fields (fst st ! a)))) (\<lambda>st'.
              Some (Inr (Ref a, st')))
          else Some (Inl (AttributeError ''_fields'')))"
| "walk_list n body tag st [] = Some (Inr ([], st))"
| "walk_list n body tag st (elt # elts) =
     then_res (walk n body tag st elt) (\<lambda>(v, st').
     then_res (walk_list n body tag st' elts) (\<lambda>(vs, st'').
       Some (Inr ((case v of VNone \<Rightarrow> [] | VList xs \<Rightarrow> xs | _ \<Rightarrow> [v]) @ vs, st''))))"
| "walk_fields k body tag st a [] = Some (Inr st)"
| "walk_fields k body tag st a (field # names) =
     (case map_of (obj_fields (fst st ! a)) field of
        Some (VList items) \<Rightarrow>
          then_res (walk_items k body tag st items) (\<lambda>(new_values, st').
            walk_fields k body tag (setfield (fst st') a field (VList new_values), snd st') a names)
      | Some (Ref b) \<Rightarrow>
          then_res (walk k body tag st (Ref b)) (\<lambda>(new_node, st').
            walk_fields k body tag
              (if new_node = VNone then delfield (fst st') a field
               else setfield (fst st') a field new_node, snd st') a names)
      | _ \<Rightarrow> walk_fields k body tag st a names)"
| "walk_items k body tag st [] = Some (Inr ([], st))"
| "walk_items k body tag st (value # rest) =
     (if isinstance_AST value then
        then_res (walk k body tag st value) (\<lambda>(value', st').
        then_res (walk_items k body tag st' rest) (\<lambda>(new_values, st'').
          case value' of
            VNone \<Rightarrow> Some (Inr (new_values, st''))
          | Ref c \<Rightarrow> Some (Inr (value' # new_values, st''))
          | VList vs \<Rightarrow> Some (Inr (vs @ new_values, st''))
          | VStr s \<Rightarrow> Some (Inr (map (\<lambda>c. VStr [c]) s @ new_values, st''))
          | VInt i \<Rightarrow> Some (Inl (TypeError ''not iterable''))))
      else
        then_res (walk_items k body tag st rest) (\<lambda>(new_values, st').
          Some (Inr (value # new_values, st'))))"
  by pat_completeness auto
termination
  by (relation "inv_image (less_than <*lex*> less_than <*lex*> less_than)
    (\<lambda>x. case x of
       Inl (Inl (n, body, tag, st, tree)) \<Rightarrow> (n, 0::nat, size tree)
     | Inl (Inr (n, body, tag, st, elts)) \<Rightarrow> (n, 0, size_list size elts)
     | Inr (Inl (k, body, tag, st, a, names)) \<Rightarrow> (k, 1, length names)
     | Inr (Inr (k, body, tag, st, items)) \<Rightarrow> (k, 0, size_list size items))")
    auto

text \<open>
  \<^verbatim>\<open>splice_statements(body, template, tag)\<close>. The second test assigns to \<^verbatim>\<open>body\<close>, as the
  source does.
\<close>

definition splice_statements :: "nat \<Rightarrow> store \<Rightarrow> val \<Rightarrow> val \<Rightarrow> string \<Rightarrow> (val \<times> store) res" where
  "splice_statements fuel h body template tag =
     (let body1 = (if isinstance_AST body then VList [body] else body);
          body2 = (if isinstance_AST template then VList [template] else body1)
      in if \<not> truth body2
         then Some (Inl (ValueError (''expected at least one statement in '' @ [CHR 0x60] @ ''body'' @ [CHR 0x60])))
         else if \<not> truth template then Some (Inr (body2, h))
         else then_res (walk fuel body2 tag (h, True) template) (\<lambda>(v, st). Some (Inr (v, fst st))))"

text \<open>
  A store for the examples: the statement \<^verbatim>\<open>pass\<close> at address 0, two paste-here
  indicators at addresses 2 and 4, and at address 6 the statement
  \<^verbatim>\<open>if 1: __paste_here__; __paste_here__\<close>.
\<close>

definition example_store :: store where
  "example_store =
     [Obj ''Pass'' [],
      Obj ''Name'' [(''id'', VStr ''__paste_here__'')],
      Obj ''Expr'' [(''value'', Ref 1)],
      Obj ''Name'' [(''id'', VStr ''__paste_here__'')],
      Obj ''Expr'' [(''value'', Ref 3)],
      Obj ''Constant'' [(''value'', VInt 1)],
      Obj ''If'' [(''test'', Ref 5), (''body'', VList [Ref 2, Ref 4]), (''orelse'', VList [])]]"

text \<open>
  With a list as template, the first indicator is replaced by the statement of \<^verbatim>\<open>body\<close>
  itself and the second by a fresh copy of it, at address 7.
\<close>

lemma splice_statements_list_template:
  "splice_statements 5 example_store (VList [Ref 0]) (VList [Ref 2, Ref 5, Ref 4]) ''__paste_here__''
   = Some (Inr (VList [Ref 0, Ref 5, Ref 7], example_store @ [Obj ''Pass'' []]))"
  by code_simp

text \<open>
  C10. The template given as a single node, the statement \<^verbatim>\<open>if 1: __paste_here__; __paste_here__\<close>
  at address 6, and the body \<^verbatim>\<open>[pass]\<close>, the statement at address 0. The second test of
  \<^verbatim>\<open>splice_statements\<close> overwrites \<^verbatim>\<open>body\<close> with \<^verbatim>\<open>[template]\<close>, so what is spliced in is the
  template: the first indicator is replaced by the template node itself, which now
  contains itself, and the second by a copy of the template as it was, indicators
  included (addresses 7 to 12). The statement at address 0 is nowhere in the result, and
  for a single node as template the result does not depend on \<^verbatim>\<open>body\<close> at all.
\<close>

theorem splice_statements_single_node_template:
  "splice_statements 5 example_store (VList [Ref 0]) (Ref 6) ''__paste_here__''
   = Some (Inr (Ref 6,
        [Obj ''Pass'' [],
         Obj ''Name'' [(''id'', VStr ''__paste_here__'')],
         Obj ''Expr'' [(''value'', Ref 1)],
         Obj ''Name'' [(''id'', VStr ''__paste_here__'')],
         Obj ''Expr'' [(''value'', Ref 3)],
         Obj ''Constant'' [(''value'', VInt 1)],
         Obj ''If'' [(''test'', Ref 5), (''body'', VList [Ref 6, Ref 7]), (''orelse'', VList [])],
         Obj ''If'' [(''test'', Ref 8), (''body'', VList [Ref 9, Ref 11]), (''orelse'', VList [])],
         Obj ''Constant'' [(''value'', VInt 1)],
         Obj ''Expr'' [(''value'', Ref 10)],
         Obj ''Name'' [(''id'', VStr ''__paste_here__'')],
         Obj ''Expr'' [(''value'', Ref 12)],
         Obj ''Name'' [(''id'', VStr ''__paste_here__'')]]))
   \<and> splice_statements fuel h body (Ref t) tag = splice_statements fuel h (VList [Ref t]) (Ref t) tag"
proof -
  have "splice_statements fuel h body (Ref t) tag = splice_statements fuel h (VList [Ref t]) (Ref t) tag"
    by (simp add: splice_statements_def Let_def)
  moreover have "splice_statements 5 example_store (VList [Ref 0]) (Ref 6) ''__paste_here__''
   = Some (Inr (Ref 6,
        [Obj ''Pass'' [],
         Obj ''Name'' [(''id'', VStr ''__paste_here__'')],
         Obj ''Expr'' [(''value'', Ref 1)],
         Obj ''Name'' [(''id'', VStr ''__paste_here__'')],
         Obj ''Expr'' [(''value'', Ref 3)],
         Obj ''Constant'' [(''value'', VInt 1)],
         Obj ''If'' [(''test'', Ref 5), (''body'', VList [Ref 6, Ref 7]), (''orelse'', VList [])],
         Obj ''If'' [(''test'', Ref 8), (''body'', VList [Ref 9, Ref 11]), (''orelse'', VList [])],
         Obj ''Constant'' [(''value'', VInt 1)],
         Obj ''Expr'' [(''value'', Ref 10)],
         Obj ''Name'' [(''id'', VStr ''__paste_here__'')],
         Obj ''Expr'' [(''value'', Ref 12)],
         Obj ''Name'' [(''id'', VStr ''__paste_here__'')]]))"
    by code_simp
  ultimately show ?thesis by blast
qed

end
